theory Spec2Isabelle
  imports Main "HOL-Library.Word" "HOL-Library.Multiset" "HOL-Library.AList"
begin

section \<open>Python values and strings\<close>

text \<open>
  Python strings are modelled as \<open>string\<close> (lists of 8-bit characters); the model is
  exact for ASCII text, which is what the field names, markers and separators of the
  converter are made of.
\<close>

text \<open>
  \<^verbatim>\<open>str.isspace\<close> on ASCII: tab, line feed, vertical tab, form feed, carriage return,
  the four separators \<^verbatim>\<open>0x1c\<close> to \<^verbatim>\<open>0x1f\<close>, and the space.
\<close>

definition isspace :: "char \<Rightarrow> bool" where
  "isspace c = (of_char c \<in> {9, 10, 11, 12, 13, 28, 29, 30, 31, 32 :: nat})"

text \<open>\<^verbatim>\<open>s.strip()\<close>: leading and trailing whitespace removed.\<close>

definition strip :: "string \<Rightarrow> string" where
  "strip s = rev (dropWhile isspace (rev (dropWhile isspace s)))"

text \<open>\<^verbatim>\<open>sep.join(xs)\<close>\<close>

fun join :: "string \<Rightarrow> string list \<Rightarrow> string" where
  "join sep [] = []"
| "join sep [x] = x"
| "join sep (x # y # ys) = x @ sep @ join sep (y # ys)"

text \<open>
  The values a build script can pass to \<^verbatim>\<open>setup\<close> and that the converter inspects. A
  dictionary is an association list in insertion order, which is the order \<^verbatim>\<open>items()\<close>
  iterates in.
\<close>

datatype pyval =
    PNone
  | PInt int
  | PStr string
  | PList "pyval list"
  | PTuple "pyval list"
  | PDict "(string \<times> pyval) list"

text \<open>Python's truth value of an object (\<^verbatim>\<open>if not value\<close>).\<close>

fun truthy :: "pyval \<Rightarrow> bool" where
  "truthy PNone = False"
| "truthy (PInt i) = (i \<noteq> 0)"
| "truthy (PStr s) = (s \<noteq> [])"
| "truthy (PList xs) = (xs \<noteq> [])"
| "truthy (PTuple xs) = (xs \<noteq> [])"
| "truthy (PDict kvs) = (kvs \<noteq> [])"

text \<open>\<^verbatim>\<open>type(value).__name__\<close>\<close>

fun type_name :: "pyval \<Rightarrow> string" where
  "type_name PNone = ''NoneType''"
| "type_name (PInt i) = ''int''"
| "type_name (PStr s) = ''str''"
| "type_name (PList xs) = ''list''"
| "type_name (PTuple xs) = ''tuple''"
| "type_name (PDict kvs) = ''dict''"

text \<open>
  A raised Python exception: its class name and message. \<open>Exception\<close> is an instance of
  \<^verbatim>\<open>Exception\<close>, which \<^verbatim>\<open>except Exception\<close> catches; \<open>BaseException\<close> is one that
  derives from \<^verbatim>\<open>BaseException\<close> only (\<^verbatim>\<open>SystemExit\<close>, \<^verbatim>\<open>KeyboardInterrupt\<close>,
  \<^verbatim>\<open>GeneratorExit\<close>), which it does not catch.
\<close>

datatype pyexc =
    Exception string string
  | BaseException string string

fun is_Exception :: "pyexc \<Rightarrow> bool" where
  "is_Exception (Exception t m) = True"
| "is_Exception (BaseException t m) = False"

fun exc_type :: "pyexc \<Rightarrow> string" where
  "exc_type (Exception t m) = t"
| "exc_type (BaseException t m) = t"

fun exc_msg :: "pyexc \<Rightarrow> string" where
  "exc_msg (Exception t m) = m"
| "exc_msg (BaseException t m) = m"

text \<open>\<^verbatim>\<open>value.attr\<close> on an object of a type that has no such attribute.\<close>

definition AttributeError :: "pyval \<Rightarrow> string \<Rightarrow> pyexc" where
  "AttributeError v attr =
     Exception ''AttributeError''
       ([CHR 0x27] @ type_name v @ [CHR 0x27] @ '' object has no attribute '' @
        [CHR 0x27] @ attr @ [CHR 0x27])"

text \<open>\<^verbatim>\<open>for x in value\<close> on an object that is not iterable.\<close>

definition TypeError_not_iterable :: "pyval \<Rightarrow> pyexc" where
  "TypeError_not_iterable v =
     Exception ''TypeError''
       ([CHR 0x27] @ type_name v @ [CHR 0x27] @ '' object is not iterable'')"

text \<open>Sequencing of computations that may raise: the first exception ends the run.\<close>

fun bind_exc :: "pyexc + 'a \<Rightarrow> ('a \<Rightarrow> pyexc + 'b) \<Rightarrow> pyexc + 'b" where
  "bind_exc (Inl e) f = Inl e"
| "bind_exc (Inr x) f = f x"

text \<open>\<^verbatim>\<open>[f(x) for x in xs]\<close> where \<^verbatim>\<open>f\<close> may raise.\<close>

fun map_exc :: "('a \<Rightarrow> pyexc + 'b) \<Rightarrow> 'a list \<Rightarrow> pyexc + 'b list" where
  "map_exc f [] = Inr []"
| "map_exc f (x # xs) =
     (case f x of
        Inl e \<Rightarrow> Inl e
      | Inr y \<Rightarrow> (case map_exc f xs of Inl e \<Rightarrow> Inl e | Inr ys \<Rightarrow> Inr (y # ys)))"

text \<open>
  \<^verbatim>\<open>iter(value)\<close>: a string yields its characters as one-character strings, a dictionary
  its keys; an integer or \<^verbatim>\<open>None\<close> is not iterable.
\<close>

fun iterate :: "pyval \<Rightarrow> pyexc + pyval list" where
  "iterate (PStr s) = Inr (map (\<lambda>c. PStr [c]) s)"
| "iterate (PList xs) = Inr xs"
| "iterate (PTuple xs) = Inr xs"
| "iterate (PDict kvs) = Inr (map (\<lambda>kv. PStr (fst kv)) kvs)"
| "iterate v = Inl (TypeError_not_iterable v)"

text \<open>\<^verbatim>\<open>value.items()\<close>: only a dictionary has the method.\<close>

fun items :: "pyval \<Rightarrow> pyexc + (string \<times> pyval) list" where
  "items (PDict kvs) = Inr kvs"
| "items v = Inl (AttributeError v ''items'')"

section \<open>The distribution object and the field getters\<close>

text \<open>
  The object that \<^verbatim>\<open>Distribution(dist)\<close> or \<^verbatim>\<open>run_setup\<close> hands to \<^verbatim>\<open>load\<close>: attributes
  of its \<^verbatim>\<open>.metadata\<close> sub-object and attributes of the object itself, by name.
\<close>

record distribution =
  metadata :: "string \<rightharpoonup> pyval"
  attrs :: "string \<rightharpoonup> pyval"

text \<open>\<^verbatim>\<open>getattr(obj, name, default)\<close>\<close>

definition getattr :: "(string \<rightharpoonup> pyval) \<Rightarrow> string \<Rightarrow> pyval \<Rightarrow> pyval" where
  "getattr obj nm dflt = (case obj nm of None \<Rightarrow> dflt | Some v \<Rightarrow> v)"

text \<open>
  \<^verbatim>\<open>
  def _get(msg, name: str) -> str:
      value = getattr(msg.metadata, name, None)
      if not value:
          value = getattr(msg, name, None)
      if not value:
          return ''
      if value == 'UNKNOWN':
          return ''
      return value.strip()
  \<close>
  Only a string has \<^verbatim>\<open>strip\<close>; on any other true value the last line raises.
\<close>

definition get :: "distribution \<Rightarrow> string \<Rightarrow> pyexc + string" where
  "get msg nm =
     (let v = getattr (metadata msg) nm PNone;
          v = (if \<not> truthy v then getattr (attrs msg) nm PNone else v)
      in if \<not> truthy v then Inr ''''
         else if v = PStr ''UNKNOWN'' then Inr ''''
         else (case v of PStr s \<Rightarrow> Inr (strip s) | _ \<Rightarrow> Inl (AttributeError v ''strip'')))"

text \<open>
  \<^verbatim>\<open>
  def _get_list(msg, name: str) -> tuple:
      values = getattr(msg, name, None)
      if not values:
          return ()
      return tuple(value for value in values if value != 'UNKNOWN' and value.strip())
  \<close>
  The filter keeps a string that is not \<^verbatim>\<open>'UNKNOWN'\<close> and does not strip to the empty
  string, and raises on an element that is not a string.
\<close>

fun keep_value :: "pyval \<Rightarrow> pyexc + bool" where
  "keep_value (PStr s) = Inr (s \<noteq> ''UNKNOWN'' \<and> strip s \<noteq> [])"
| "keep_value v = Inl (AttributeError v ''strip'')"

fun filter_values :: "pyval list \<Rightarrow> pyexc + pyval list" where
  "filter_values [] = Inr []"
| "filter_values (v # vs) =
     (case keep_value v of
        Inl e \<Rightarrow> Inl e
      | Inr k \<Rightarrow> (case filter_values vs of
                   Inl e \<Rightarrow> Inl e
                 | Inr r \<Rightarrow> Inr (if k then v # r else r)))"

definition get_list :: "distribution \<Rightarrow> string \<Rightarrow> pyexc + pyval list" where
  "get_list msg nm =
     (let values = getattr (attrs msg) nm PNone
      in if \<not> truthy values then Inr []
         else bind_exc (iterate values) filter_values)"

section \<open>Requirement rendering\<close>

text \<open>
  The attributes of a \<open>dephell.models.Requirement\<close> that the converter reads: \<open>name\<close>,
  \<open>extras\<close>, \<open>version\<close>, \<open>markers\<close> and \<open>main_envs\<close>. \<open>extras\<close> and \<open>main_envs\<close> are
  Python collections; the lists give their iteration order. \<open>markers\<close> is \<open>None\<close> or a
  string.
\<close>

record requirement =
  req_name :: string
  req_extras :: "string list"
  req_version :: string
  req_markers :: "string option"
  main_envs :: "string list"

text \<open>
  \<^verbatim>\<open>
  def _format_req(req):
      line = req.name
      if req.extras:
          line += '[{extras}]'.format(extras=','.join(req.extras))
      if req.version:
          line += req.version
      if req.markers:
          line += '; ' + req.markers
      return line
  \<close>
\<close>

definition format_req :: "requirement \<Rightarrow> string" where
  "format_req req =
     (let line = req_name req;
          line = (if req_extras req \<noteq> []
                  then line @ ''['' @ join '','' (req_extras req) @ '']'' else line);
          line = (if req_version req \<noteq> [] then line @ req_version req else line);
          line = (case req_markers req of
                    None \<Rightarrow> line
                  | Some m \<Rightarrow> if m \<noteq> [] then line @ ''; '' @ m else line)
      in line)"

section \<open>The metadata model\<close>

text \<open>
  The classes \<^verbatim>\<open>Author\<close>, \<^verbatim>\<open>Dependency\<close> and \<^verbatim>\<open>RootDependency\<close> of \<^verbatim>\<open>dephell.models\<close>, with
  the fields that \<^verbatim>\<open>load\<close> sets. Of a dependency the converter touches \<open>envs\<close> only; what
  \<^verbatim>\<open>DependencyMaker\<close> put into the object is \<open>dep_data\<close>. The values of the collaborators
  (\<^verbatim>\<open>RangeSpecifier\<close>, \<^verbatim>\<open>Readme\<close>, \<^verbatim>\<open>EntryPoint\<close>) are type parameters.
\<close>

record author =
  author_name :: string
  mail :: string

record 'd dependency =
  dep_data :: 'd
  envs :: "string set"

record ('spec, 'rd, 'ep, 'd) root_dependency =
  raw_name :: string
  version :: string
  description :: string
  license :: string
  keywords' :: "pyval list"
  classifiers :: "pyval list"
  platforms :: "pyval list"
  python :: 'spec
  readme :: 'rd
  links :: "(string \<times> string) list"
  authors :: "author list"
  entrypoints :: "'ep list"
  dependencies :: "'d dependency list"

text \<open>
  Modelled from the spec: \<^verbatim>\<open>RootDependency.attach_dependencies\<close> is not among the source
  files; the root owns an ordered dependency collection, and attaching adds the given
  dependencies to it.
\<close>

definition attach_dependencies ::
  "('spec, 'rd, 'ep, 'd) root_dependency \<Rightarrow> 'd dependency list
     \<Rightarrow> ('spec, 'rd, 'ep, 'd) root_dependency" where
  "attach_dependencies root deps = root\<lparr>dependencies := dependencies root @ deps\<rparr>"

section \<open>The patched file-open primitive\<close>

datatype buffer =
    BytesIO "8 word list"
  | StringIO string

text \<open>\<^verbatim>\<open>s.encode('utf8')\<close>: on ASCII text, one byte per character.\<close>

definition encode_utf8 :: "string \<Rightarrow> 8 word list" where
  "encode_utf8 s = map of_char s"

text \<open>\<^verbatim>\<open>buffer.read()\<close> on a fresh buffer: the whole content, as bytes or as text.\<close>

datatype content = Bytes "8 word list" | Text string

fun read :: "buffer \<Rightarrow> content" where
  "read (BytesIO bs) = Bytes bs"
| "read (StringIO s) = Text s"

text \<open>
  \<^verbatim>\<open>
  def _patched_open(fname, mode='r', *args, **kwargs):
      if 'b' in mode:
          return BytesIO(fname.encode('utf8'))
      return StringIO(fname)
  \<close>
  The mode is \<open>None\<close> when the caller leaves it out.
\<close>

definition patched_open :: "string \<Rightarrow> string option \<Rightarrow> buffer" where
  "patched_open fname mode_arg =
     (let mode = (case mode_arg of None \<Rightarrow> ''r'' | Some m \<Rightarrow> m)
      in if CHR ''b'' \<in> set mode then BytesIO (encode_utf8 fname) else StringIO fname)"

section \<open>The environment of the loader\<close>

text \<open>
  The namespace the rewritten script runs in:
  \<^verbatim>\<open>
  globe = {
      '__file__': str(path),
      '__name__': '__main__',
      'open': _patched_open,
  }
  \<close>
\<close>

record globals =
  g_file :: string
  g_name :: string
  g_open :: "string \<Rightarrow> string option \<Rightarrow> buffer"

definition globe :: "string \<Rightarrow> globals" where
  "globe path = \<lparr>g_file = path, g_name = ''__main__'', g_open = patched_open\<rparr>"

text \<open>
  What running a script in a namespace leaves behind: the exception it ended with, if
  any, and the value of \<^verbatim>\<open>globe.get('_dist')\<close> afterwards (\<open>PNone\<close> when the name is
  unset).
\<close>

record exec_result =
  raised :: "pyexc option"
  dist_var :: pyval

datatype level = DEBUG | ERROR

type_synonym log = "(level \<times> string) list"

text \<open>
  Everything \<^verbatim>\<open>load\<close> calls that is not in the converter: the file system
  (\<^verbatim>\<open>path.read_text\<close>), the interpreter (\<^verbatim>\<open>exec(compile(source, name, 'exec'), globe)\<close>),
  \<^verbatim>\<open>setuptools\<close> (\<^verbatim>\<open>Distribution\<close>, whose constructor validates its arguments and can
  raise), \<^verbatim>\<open>distutils\<close> (\<^verbatim>\<open>run_setup\<close>) and the collaborators that parse single fields. The script \<^verbatim>\<open>path.name\<close> in the directory \<^verbatim>\<open>path.parent\<close> is
  named by \<open>path\<close>; \<^verbatim>\<open>chdir\<close> restores the working directory and leaves no other trace.
\<close>

record ('spec, 'rd, 'ep, 'rq, 'd) world =
  read_text :: "string \<Rightarrow> pyexc + string"
  exec :: "string \<Rightarrow> string \<Rightarrow> globals \<Rightarrow> exec_result"
  Distribution :: "pyval \<Rightarrow> pyexc + distribution"
  run_setup :: "string \<Rightarrow> pyexc + distribution"
  RangeSpecifier :: "string \<Rightarrow> pyexc + 'spec"
  Readme_from_code :: "string \<Rightarrow> pyexc + 'rd"
  EntryPoint_parse :: "pyval \<Rightarrow> string \<Rightarrow> pyexc + 'ep"
  Requirement :: "pyval \<Rightarrow> pyexc + 'rq"
  from_requirement ::
    "('spec, 'rd, 'ep, 'd) root_dependency \<Rightarrow> 'rq \<Rightarrow> string option
       \<Rightarrow> pyexc + 'd dependency list"
  split_extra_and_marker :: "string \<Rightarrow> string \<times> string option"

section \<open>The script loader\<close>

text \<open>
  \<^verbatim>\<open>source.replace(old, new)\<close>: every occurrence of \<open>old\<close>, found from the left and not
  overlapping, is replaced. With an empty \<open>old\<close>, Python puts \<open>new\<close> before every character
  and at the end.
\<close>

function replace :: "string \<Rightarrow> string \<Rightarrow> string \<Rightarrow> string" where
  "replace old new s =
     (if old = [] then new @ concat (map (\<lambda>c. c # new) s)
      else if s = [] then []
      else if take (length old) s = old then new @ replace old new (drop (length old) s)
      else hd s # replace old new (tl s))"
  by pat_completeness auto
termination
  by (relation "measure (\<lambda>(old, new, s). length s)") auto

declare replace.simps [simp del]

text \<open>\<^verbatim>\<open>old in s\<close>: the string \<open>old\<close> occurs in \<open>s\<close>.\<close>

fun contains :: "string \<Rightarrow> string \<Rightarrow> bool" where
  "contains old [] = (old = [])"
| "contains old (c # cs) = (take (length old) (c # cs) = old \<or> contains old cs)"

text \<open>
  The end of \<^verbatim>\<open>_execute\<close>:
  \<^verbatim>\<open>
  dist = globe.get('_dist')
  if dist is None:
      logger.error('distribution was not called')
      return None
  return Distribution(dist)
  \<close>
  The constructor call is outside the \<^verbatim>\<open>try\<close> block: what it raises leaves \<^verbatim>\<open>_execute\<close>.
\<close>

definition captured ::
  "('spec, 'rd, 'ep, 'rq, 'd) world \<Rightarrow> pyval \<Rightarrow> log
     \<Rightarrow> (pyexc + distribution option) \<times> log" where
  "captured w dist lg =
     (if dist = PNone then (Inr None, lg @ [(ERROR, ''distribution was not called'')])
      else (case Distribution w dist of
              Inl e \<Rightarrow> (Inl e, lg)
            | Inr info \<Rightarrow> (Inr (Some info), lg)))"

text \<open>
  \<^verbatim>\<open>
  def _execute(path: Path):
      source = path.read_text('utf-8')
      new_source = source.replace('setup(', '_dist = dict(')
      if new_source == source:
          logger.error('cannot modify source')
          return None
      globe = {...}
      with chdir(path.parent):
          try:
              exec(compile(new_source, path.name, 'exec'), globe)
          except Exception as e:
              logger.error('{}: {}'.format(type(e).__name__, str(e)))
      dist = globe.get('_dist')
      ...
  \<close>
  The result is the exception that leaves the function, or the returned value with
  \<open>None\<close> for Python's \<^verbatim>\<open>None\<close>; the log is threaded through.
\<close>

definition execute ::
  "('spec, 'rd, 'ep, 'rq, 'd) world \<Rightarrow> string \<Rightarrow> log
     \<Rightarrow> (pyexc + distribution option) \<times> log" where
  "execute w path lg =
     (case read_text w path of
        Inl e \<Rightarrow> (Inl e, lg)
      | Inr source \<Rightarrow>
          (let new_source = replace ''setup('' ''_dist = dict('' source
           in if new_source = source then (Inr None, lg @ [(ERROR, ''cannot modify source'')])
              else
                (let r = exec w new_source path (globe path)
                 in case raised r of
                      None \<Rightarrow> captured w (dist_var r) lg
                    | Some e \<Rightarrow>
                        if is_Exception e
                        then captured w (dist_var r)
                               (lg @ [(ERROR, exc_type e @ '': '' @ exc_msg e)])
                        else (Inl e, lg))))"

text \<open>
  The constructor call of \<^verbatim>\<open>load\<close> (lines 85 to 98): the arguments are evaluated in the
  order written, and \<^verbatim>\<open>version\<close> is \<^verbatim>\<open>cls._get(info, 'version') or '0.0.0'\<close>.
\<close>

definition new_root ::
  "('spec, 'rd, 'ep, 'rq, 'd) world \<Rightarrow> string \<Rightarrow> distribution
     \<Rightarrow> pyexc + ('spec, 'rd, 'ep, 'd) root_dependency" where
  "new_root w path info =
     bind_exc (get info ''name'') (\<lambda>nm.
     bind_exc (get info ''version'') (\<lambda>ver.
     bind_exc (get info ''description'') (\<lambda>descr.
     bind_exc (get info ''license'') (\<lambda>lic.
     bind_exc (get_list info ''keywords'') (\<lambda>kws.
     bind_exc (get_list info ''classifiers'') (\<lambda>cls.
     bind_exc (get_list info ''platforms'') (\<lambda>plats.
     bind_exc (get info ''python_requires'') (\<lambda>py.
     bind_exc (RangeSpecifier w py) (\<lambda>spec.
     bind_exc (Readme_from_code w path) (\<lambda>rd.
       Inr \<lparr>raw_name = nm,
            version = (if ver \<noteq> [] then ver else ''0.0.0''),
            description = descr,
            license = lic,
            keywords' = kws,
            classifiers = cls,
            platforms = plats,
            python = spec,
            readme = rd,
            links = [],
            authors = [],
            entrypoints = [],
            dependencies = []\<rparr>))))))))))"

text \<open>
  \<^verbatim>\<open>
  for key, name in (('home', 'url'), ('download', 'download_url')):
      link = cls._get(info, name)
      if link:
          root.links[key] = link
  \<close>
\<close>

fun load_links ::
  "distribution \<Rightarrow> (string \<times> string) list \<Rightarrow> (string \<times> string) list
     \<Rightarrow> pyexc + (string \<times> string) list" where
  "load_links info [] lks = Inr lks"
| "load_links info ((key, nm) # rest) lks =
     bind_exc (get info nm) (\<lambda>link.
       load_links info rest (if link \<noteq> [] then AList.update key link lks else lks))"

text \<open>
  \<^verbatim>\<open>
  for name in ('author', 'maintainer'):
      author = cls._get(info, name)
      if author:
          root.authors += (
              Author(name=author, mail=cls._get(info, name + '_email')),
          )
  \<close>
\<close>

fun load_authors :: "distribution \<Rightarrow> string list \<Rightarrow> author list \<Rightarrow> pyexc + author list" where
  "load_authors info [] auths = Inr auths"
| "load_authors info (nm # rest) auths =
     bind_exc (get info nm) (\<lambda>a.
       if a \<noteq> []
       then bind_exc (get info (nm @ ''_email'')) (\<lambda>m.
              load_authors info rest (auths @ [\<lparr>author_name = a, mail = m\<rparr>]))
       else load_authors info rest auths)"

text \<open>
  \<^verbatim>\<open>
  entrypoints = []
  for group, content in (getattr(info, 'entry_points', {}) or {}).items():
      for entrypoint in content:
          entrypoints.append(EntryPoint.parse(text=entrypoint, group=group))
  \<close>
\<close>

definition load_entrypoints ::
  "('spec, 'rd, 'ep, 'rq, 'd) world \<Rightarrow> distribution \<Rightarrow> pyexc + 'ep list" where
  "load_entrypoints w info =
     (let v = getattr (attrs info) ''entry_points'' (PDict []);
          v = (if truthy v then v else PDict [])
      in bind_exc (items v) (\<lambda>groups.
         bind_exc (map_exc (\<lambda>(group, content).
                     bind_exc (iterate content) (map_exc (\<lambda>e. EntryPoint_parse w e group)))
                   groups) (\<lambda>eps.
           Inr (concat eps))))"

text \<open>
  \<^verbatim>\<open>
  deps = []
  for req in cls._get_list(info, 'install_requires'):
      req = Requirement(req)
      deps.extend(DependencyMaker.from_requirement(source=root, req=req))
  root.attach_dependencies(deps)
  \<close>
\<close>

definition load_install_requires ::
  "('spec, 'rd, 'ep, 'rq, 'd) world \<Rightarrow> distribution \<Rightarrow> ('spec, 'rd, 'ep, 'd) root_dependency
     \<Rightarrow> pyexc + ('spec, 'rd, 'ep, 'd) root_dependency" where
  "load_install_requires w info root =
     bind_exc (get_list info ''install_requires'') (\<lambda>reqs.
     bind_exc (map_exc (\<lambda>req. bind_exc (Requirement w req) (\<lambda>r. from_requirement w root r None))
                 reqs) (\<lambda>deps.
       Inr (attach_dependencies root (concat deps))))"

text \<open>
  The inner loop over the requirements of one extra:
  \<^verbatim>\<open>
  for req in reqs:
      req = Requirement(req)
      deps = DependencyMaker.from_requirement(source=root, req=req, marker=marker)
      for dep in deps:
          dep.envs = envs
      root.attach_dependencies(deps)
  \<close>
\<close>

fun load_extra_reqs ::
  "('spec, 'rd, 'ep, 'rq, 'd) world \<Rightarrow> string set \<Rightarrow> string option \<Rightarrow> pyval list
     \<Rightarrow> ('spec, 'rd, 'ep, 'd) root_dependency
     \<Rightarrow> pyexc + ('spec, 'rd, 'ep, 'd) root_dependency" where
  "load_extra_reqs w es marker [] root = Inr root"
| "load_extra_reqs w es marker (req # reqs) root =
     bind_exc (Requirement w req) (\<lambda>r.
     bind_exc (from_requirement w root r marker) (\<lambda>deps.
       load_extra_reqs w es marker reqs
         (attach_dependencies root (map (\<lambda>dep. dep\<lparr>envs := es\<rparr>) deps))))"

text \<open>
  The outer loop:
  \<^verbatim>\<open>
  for extra, reqs in getattr(info, 'extras_require', {}).items():
      extra, marker = cls._split_extra_and_marker(extra)
      envs = {extra} if extra == 'dev' else {'main', extra}
      for req in reqs:
          ...
  \<close>
\<close>

fun load_extras ::
  "('spec, 'rd, 'ep, 'rq, 'd) world \<Rightarrow> (string \<times> pyval) list
     \<Rightarrow> ('spec, 'rd, 'ep, 'd) root_dependency
     \<Rightarrow> pyexc + ('spec, 'rd, 'ep, 'd) root_dependency" where
  "load_extras w [] root = Inr root"
| "load_extras w ((key, reqs) # rest) root =
     (let (extra, marker) = split_extra_and_marker w key;
          es = (if extra = ''dev'' then {extra} else {''main'', extra})
      in bind_exc (iterate reqs) (\<lambda>rs.
         bind_exc (load_extra_reqs w es marker rs root) (load_extras w rest)))"

text \<open>The assembly of the root from the distribution object (lines 85 to 139).\<close>

definition load_info ::
  "('spec, 'rd, 'ep, 'rq, 'd) world \<Rightarrow> string \<Rightarrow> distribution
     \<Rightarrow> pyexc + ('spec, 'rd, 'ep, 'd) root_dependency" where
  "load_info w path info =
     bind_exc (new_root w path info) (\<lambda>root.
     bind_exc (load_links info [(''home'', ''url''), (''download'', ''download_url'')]
                 (links root)) (\<lambda>lks.
     bind_exc (load_authors info [''author'', ''maintainer''] (authors root)) (\<lambda>auths.
     bind_exc (load_entrypoints w info) (\<lambda>eps.
     bind_exc (load_install_requires w info
                 (root\<lparr>links := lks, authors := auths, entrypoints := eps\<rparr>)) (\<lambda>root.
     bind_exc (items (getattr (attrs info) ''extras_require'' (PDict []))) (\<lambda>extras.
       load_extras w extras root))))))"

text \<open>
  \<^verbatim>\<open>
  def load(cls, path) -> RootDependency:
      path = Path(str(path))
      info = cls._execute(path=path)
      if info is None:
          with chdir(path.parent):
              info = run_setup(path.name)
      root = RootDependency(...)
      ...
      return root
  \<close>
\<close>

definition load ::
  "('spec, 'rd, 'ep, 'rq, 'd) world \<Rightarrow> string \<Rightarrow> log
     \<Rightarrow> (pyexc + ('spec, 'rd, 'ep, 'd) root_dependency) \<times> log" where
  "load w path lg =
     (case execute w path lg of
        (Inl e, lg') \<Rightarrow> (Inl e, lg')
      | (Inr info_opt, lg') \<Rightarrow>
          (case (case info_opt of None \<Rightarrow> run_setup w path | Some info \<Rightarrow> Inr info) of
             Inl e \<Rightarrow> (Inl e, lg')
           | Inr info \<Rightarrow> (load_info w path info, lg')))"

section \<open>The script emitter: requirement entries\<close>

text \<open>
  \<^verbatim>\<open>extras = defaultdict(list)\<close> and \<^verbatim>\<open>extras[env].append(formatted)\<close>: a new key is added
  after the keys already there, with a one-element list.
\<close>

fun dd_append ::
  "(string \<times> string list) list \<Rightarrow> string \<Rightarrow> string \<Rightarrow> (string \<times> string list) list" where
  "dd_append [] k v = [(k, [v])]"
| "dd_append ((k', vs) # rest) k v =
     (if k' = k then (k', vs @ [v]) # rest else (k', vs) # dd_append rest k v)"

text \<open>
  \<^verbatim>\<open>
  for env in req.main_envs:
      extras[env].append(formatted)
  \<close>
\<close>

fun add_envs ::
  "(string \<times> string list) list \<Rightarrow> string list \<Rightarrow> string \<Rightarrow> (string \<times> string list) list" where
  "add_envs ex [] formatted = ex"
| "add_envs ex (env # rest) formatted = add_envs (dd_append ex env formatted) rest formatted"

text \<open>
  \<^verbatim>\<open>
  for req in reqs:
      if req.main_envs:
          formatted = self._format_req(req=req)
          for env in req.main_envs:
              extras[env].append(formatted)
  \<close>
\<close>

fun collect_extras ::
  "requirement list \<Rightarrow> (string \<times> string list) list \<Rightarrow> (string \<times> string list) list" where
  "collect_extras [] ex = ex"
| "collect_extras (req # reqs) ex =
     collect_extras reqs
       (if main_envs req \<noteq> [] then add_envs ex (main_envs req) (format_req req) else ex)"

text \<open>
  Lines 198 to 208 of \<^verbatim>\<open>dumps\<close>, on the list \<open>content\<close> of keyword and value pairs built
  so far:
  \<^verbatim>\<open>
  reqs_list = [self._format_req(req=req) for req in reqs if not req.main_envs]
  content.append(('install_requires', reqs_list))
  extras = defaultdict(list)
  for req in reqs: ...
  if extras:
      content.append(('extras_require', dict(extras)))
  \<close>
\<close>

definition dumps_requirements ::
  "requirement list \<Rightarrow> (string \<times> pyval) list \<Rightarrow> (string \<times> pyval) list" where
  "dumps_requirements reqs content =
     (let reqs_list = map format_req (filter (\<lambda>req. \<not> main_envs req \<noteq> []) reqs);
          content = content @ [(''install_requires'', PList (map PStr reqs_list))];
          extras = collect_extras reqs []
      in if extras \<noteq> []
         then content @
                [(''extras_require'', PDict (map (\<lambda>(k, vs). (k, PList (map PStr vs))) extras))]
         else content)"

section \<open>The installer driver\<close>

text \<open>
  What the two child processes of \<^verbatim>\<open>run\<close> leave behind once both have been waited for:
  the installer's exit code and the bytes it wrote to its standard error.
\<close>

record finished =
  returncode :: int
  stderr :: "8 word list"

text \<open>
  The operating system as \<^verbatim>\<open>run\<close> sees it: \<^verbatim>\<open>sys.executable\<close>; the pipeline of
  \<^verbatim>\<open>command_pip\<close> feeding \<^verbatim>\<open>command_grep\<close>, started by the two calls of \<^verbatim>\<open>subprocess.Popen\<close>
  and waited for, where \<^verbatim>\<open>Popen\<close> raises \<^verbatim>\<open>OSError\<close> when a program cannot be started; and
  \<^verbatim>\<open>bytes.decode()\<close>, which raises on bytes that are not UTF-8.
\<close>

record os =
  sys_executable :: string
  popen_wait :: "string list \<Rightarrow> string list \<Rightarrow> pyexc + finished"
  decode :: "8 word list \<Rightarrow> pyexc + string"

record package_manager =
  executable :: string

text \<open>
  \<^verbatim>\<open>
  def run(self, *args) -> int:
      command_pip = [str(self.executable), '-m', 'pip'] + list(args)
      command_grep = [sys.executable, '-m', 'dephell.pip_cleaner']
      process_pip = subprocess.Popen(command_pip, stdout=subprocess.PIPE, stderr=subprocess.PIPE)
      process_grep = subprocess.Popen(command_grep, stdin=process_pip.stdout, stdout=sys.stdout)
      with process_pip, process_grep:
          process_pip.wait()
          process_grep.wait()
          stderr = process_pip.stderr.read().decode()
          if process_pip.returncode != 0:
              logger.error(stderr)
          else:
              logger.debug(stderr)
          return process_pip.returncode
  \<close>
\<close>

definition run :: "os \<Rightarrow> package_manager \<Rightarrow> string list \<Rightarrow> log \<Rightarrow> (pyexc + int) \<times> log" where
  "run sys self args lg =
     (let command_pip = [executable self, ''-m'', ''pip''] @ args;
          command_grep = [sys_executable sys, ''-m'', ''dephell.pip_cleaner'']
      in case popen_wait sys command_pip command_grep of
           Inl e \<Rightarrow> (Inl e, lg)
         | Inr process_pip \<Rightarrow>
             (case decode sys (stderr process_pip) of
                Inl e \<Rightarrow> (Inl e, lg)
              | Inr text \<Rightarrow>
                  if returncode process_pip \<noteq> 0
                  then (Inr (returncode process_pip), lg @ [(ERROR, text)])
                  else (Inr (returncode process_pip), lg @ [(DEBUG, text)])))"

section \<open>The specification's vocabulary\<close>

text \<open>
  The rendering of a requirement as the specification words it: four pieces in a fixed
  order, the name, the bracketed extras joined by commas, the version constraint, and
  the marker behind \<^verbatim>\<open>'; '\<close>; a piece that is not present is empty.
\<close>

definition requirement_pieces :: "requirement \<Rightarrow> string list" where
  "requirement_pieces req =
     [req_name req,
      (if req_extras req = [] then [] else ''['' @ join '','' (req_extras req) @ '']''),
      req_version req,
      (case req_markers req of None \<Rightarrow> [] | Some m \<Rightarrow> if m = [] then [] else ''; '' @ m)]"

text \<open>
  The environments of an extra as the specification words them: \<^verbatim>\<open>{"dev"}\<close> for the extra
  named \<^verbatim>\<open>dev\<close>, \<^verbatim>\<open>{"main", extra_name}\<close> for any other.
\<close>

definition extra_envs :: "string \<Rightarrow> string set" where
  "extra_envs extra = (if extra = ''dev'' then {''dev''} else {''main'', extra})"

text \<open>
  The dependencies made from one requirement text for a source root and a marker: the
  text is parsed by \<^verbatim>\<open>Requirement\<close> and handed to \<^verbatim>\<open>DependencyMaker.from_requirement\<close>.
\<close>

definition make_deps ::
  "('spec, 'rd, 'ep, 'rq, 'd) world \<Rightarrow> ('spec, 'rd, 'ep, 'd) root_dependency \<Rightarrow> string option
     \<Rightarrow> pyval \<Rightarrow> pyexc + 'd dependency list" where
  "make_deps w source marker req =
     (case Requirement w req of
        Inl e \<Rightarrow> Inl e
      | Inr r \<Rightarrow> from_requirement w source r marker)"

text \<open>Dependencies tagged with a set of environments.\<close>

definition tagged :: "string set \<Rightarrow> 'd dependency list \<Rightarrow> 'd dependency list" where
  "tagged es deps = map (\<lambda>dep. \<lparr>dep_data = dep_data dep, envs = es\<rparr>) deps"


text \<open>\<^verbatim>\<open>extras.get(env, [])\<close>: the list under a key, empty when the key is not there.\<close>

definition values_under :: "(string \<times> string list) list \<Rightarrow> string \<Rightarrow> string list" where
  "values_under ex env = (case map_of ex env of None \<Rightarrow> [] | Some vs \<Rightarrow> vs)"

text \<open>
  The renderings the specification puts under an environment name: one for every
  requirement of the input that has the name among its named environments, in input
  order.
\<close>

definition renderings_under :: "string \<Rightarrow> requirement list \<Rightarrow> string list" where
  "renderings_under env reqs =
     concat (map (\<lambda>req. map (\<lambda>e. format_req req) (filter (\<lambda>e. e = env) (main_envs req))) reqs)"

section \<open>An example environment\<close>

text \<open>
  A distribution object that exposes the captured keyword arguments both on \<^verbatim>\<open>.metadata\<close>
  and as top-level attributes.
\<close>

definition kwargs_distribution :: "pyval \<Rightarrow> distribution" where
  "kwargs_distribution v =
     (case v of
        PDict kvs \<Rightarrow> \<lparr>metadata = map_of kvs, attrs = map_of kvs\<rparr>
      | _ \<Rightarrow> \<lparr>metadata = Map.empty, attrs = Map.empty\<rparr>)"

text \<open>
  An environment in which the script at every path has the text \<open>source\<close>, running the
  rewritten script gives \<open>result\<close>, and running the script itself gives \<open>fallback\<close>. The
  collaborators keep what they are given: a requirement is its text, and one dependency
  in the environment \<^verbatim>\<open>main\<close> is made of it. The key of an extra is split at its first
  colon.
\<close>

definition script_world ::
  "string \<Rightarrow> exec_result \<Rightarrow> pyexc + distribution
     \<Rightarrow> (string, unit, string \<times> pyval, pyval, pyval) world" where
  "script_world source result fallback =
     \<lparr>read_text = (\<lambda>path. Inr source),
      exec = (\<lambda>new_source path g. result),
      Distribution = (\<lambda>dist. Inr (kwargs_distribution dist)),
      run_setup = (\<lambda>path. fallback),
      RangeSpecifier = Inr,
      Readme_from_code = (\<lambda>path. Inr ()),
      EntryPoint_parse = (\<lambda>text group. Inr (group, text)),
      Requirement = Inr,
      from_requirement = (\<lambda>root r marker. Inr [\<lparr>dep_data = r, envs = {''main''}\<rparr>]),
      split_extra_and_marker =
        (\<lambda>key. (takeWhile (\<lambda>c. c \<noteq> CHR '':'') key,
                if CHR '':'' \<in> set key then Some (tl (dropWhile (\<lambda>c. c \<noteq> CHR '':'') key))
                else None))\<rparr>"



text \<open>A root with a name and a version and nothing else.\<close>

definition bare_root :: "string \<Rightarrow> string \<Rightarrow> (string, unit, string \<times> pyval, pyval) root_dependency" where
  "bare_root nm ver =
     \<lparr>raw_name = nm, version = ver, description = '''', license = '''',
      keywords' = [], classifiers = [], platforms = [], python = '''', readme = (),
      links = [], authors = [], entrypoints = [], dependencies = []\<rparr>"

section \<open>Properties of the string helpers and the getters\<close>

lemma strip_blank: "list_all isspace s \<Longrightarrow> strip s = []"
proof -
  assume "list_all isspace s"
  then have d: "dropWhile isspace s = []" by (induction s) auto
  show ?thesis unfolding strip_def d by simp
qed

lemma dropWhile_decomp: "\<exists>a. s = a @ dropWhile P s \<and> list_all P a"
  by (metis takeWhile_dropWhile_id list_all_iff set_takeWhileD)

lemma strip_decomp:
  "\<exists>a b. s = a @ strip s @ b \<and> list_all isspace a \<and> list_all isspace b"
proof -
  obtain a where a: "s = a @ dropWhile isspace s" "list_all isspace a"
    using dropWhile_decomp by blast
  obtain c where c: "rev (dropWhile isspace s) = c @ dropWhile isspace (rev (dropWhile isspace s))"
     "list_all isspace c"
    using dropWhile_decomp by blast
  have "dropWhile isspace s = strip s @ rev c"
    using c(1) unfolding strip_def by (metis rev_append rev_rev_ident)
  with a c(2) show ?thesis
    by (metis list_all_rev)
qed

lemma strip_ends:
  assumes "strip s \<noteq> []"
  shows "\<not> isspace (hd (strip s)) \<and> \<not> isspace (last (strip s))"
proof -
  let ?t = "dropWhile isspace s"
  let ?u = "dropWhile isspace (rev ?t)"
  have u: "?u \<noteq> []" using assms by (simp add: strip_def)
  then have l: "\<not> isspace (hd ?u)" by (rule hd_dropWhile)
  have 1: "last (strip s) = hd ?u" using u by (simp add: strip_def last_rev)
  have t: "?t \<noteq> []" using u by fastforce
  then have ht: "\<not> isspace (hd ?t)" by (rule hd_dropWhile)
  obtain c where c: "rev ?t = c @ ?u"
    by (metis takeWhile_dropWhile_id)
  have "?t = rev ?u @ rev c" using c by (metis rev_append rev_rev_ident)
  then have "?t = strip s @ rev c" by (simp add: strip_def)
  then have 2: "hd (strip s) = hd ?t" using assms by (metis hd_append2)
  show ?thesis using 1 2 l ht by simp
qed

lemma strip_nonblank: "\<not> list_all isspace s \<Longrightarrow> strip s \<noteq> []"
proof
  assume nb: "\<not> list_all isspace s" and e: "strip s = []"
  obtain a b where "s = a @ strip s @ b" "list_all isspace a" "list_all isspace b"
    using strip_decomp by blast
  with e have "list_all isspace s" by (metis append_Nil list_all_append)
  with nb show False by simp
qed

lemma bind_exc_Inr: "bind_exc m f = Inr y \<longleftrightarrow> (\<exists>x. m = Inr x \<and> f x = Inr y)"
  by (cases m) auto

lemma bind_exc_InrE:
  "bind_exc m f = Inr y \<Longrightarrow> (\<And>x. m = Inr x \<Longrightarrow> f x = Inr y \<Longrightarrow> P) \<Longrightarrow> P"
  by (cases m) auto

lemma get_metadata_str:
  "metadata msg nm = Some (PStr s) \<Longrightarrow> s \<noteq> [] \<Longrightarrow>
     get msg nm = Inr (if s = ''UNKNOWN'' then [] else strip s)"
  by (simp add: get_def getattr_def)

lemma get_attrs_str:
  "\<not> truthy (getattr (metadata msg) nm PNone) \<Longrightarrow> attrs msg nm = Some (PStr s) \<Longrightarrow>
     get msg nm = Inr (if s = ''UNKNOWN'' then [] else strip s)"
  by (simp add: get_def getattr_def strip_def Let_def)

lemma get_absent:
  "\<not> truthy (getattr (metadata msg) nm PNone) \<Longrightarrow> \<not> truthy (getattr (attrs msg) nm PNone) \<Longrightarrow>
     get msg nm = Inr []"
  by (simp add: get_def)


lemma get_nonempty_stripped:
  "get info nm = Inr v \<Longrightarrow> v \<noteq> [] \<Longrightarrow> \<not> isspace (hd v) \<and> \<not> isspace (last v)"
  by (auto simp: get_def Let_def strip_ends split: pyval.splits if_splits)

text \<open>
  C7. For every field name, \<^verbatim>\<open>_get\<close> takes the attribute of the \<^verbatim>\<open>.metadata\<close> sub-object
  when that holds a non-empty string, whatever the top-level attribute of the same name
  is, and the top-level attribute otherwise. The string \<^verbatim>\<open>"UNKNOWN"\<close> and a string of
  whitespace only give the empty string, as an absent attribute does; any other string
  is returned with the whitespace at both ends removed and nothing else changed.
\<close>

theorem get_unknown_blank_metadata_first:
  "(metadata msg nm = Some (PStr s) \<and> s \<noteq> [] \<longrightarrow>
      get msg nm = Inr (if s = ''UNKNOWN'' then [] else strip s)) \<and>
   (\<not> truthy (getattr (metadata msg) nm PNone) \<and> attrs msg nm = Some (PStr s) \<longrightarrow>
      get msg nm = Inr (if s = ''UNKNOWN'' then [] else strip s)) \<and>
   (\<not> truthy (getattr (metadata msg) nm PNone) \<and> \<not> truthy (getattr (attrs msg) nm PNone) \<longrightarrow>
      get msg nm = Inr []) \<and>
   (list_all isspace s \<longrightarrow> strip s = []) \<and>
   (\<exists>a b. s = a @ strip s @ b \<and> list_all isspace a \<and> list_all isspace b) \<and>
   (strip s \<noteq> [] \<longrightarrow> \<not> isspace (hd (strip s)) \<and> \<not> isspace (last (strip s)))"
  using get_metadata_str [of msg nm s] get_attrs_str [of msg nm s] get_absent [of msg nm]
    strip_blank [of s] strip_decomp [of s] strip_ends [of s]
  by blast

theorem get_unknown_blank_metadata_first_witness:
  "get \<lparr>metadata = [''name'' \<mapsto> PStr [CHR 0x20, CHR ''d'', CHR ''e'', CHR ''m'', CHR ''o'', CHR 0x09]],
        attrs = [''name'' \<mapsto> PStr ''other'']\<rparr> ''name'' = Inr ''demo'' \<and>
   get \<lparr>metadata = [''name'' \<mapsto> PStr ''UNKNOWN''],
        attrs = [''name'' \<mapsto> PStr ''other'']\<rparr> ''name'' = Inr '''' \<and>
   get \<lparr>metadata = [''name'' \<mapsto> PStr ''''],
        attrs = [''name'' \<mapsto> PStr ''other'']\<rparr> ''name'' = Inr ''other'' \<and>
   get \<lparr>metadata = Map.empty, attrs = Map.empty\<rparr> ''name'' = Inr ''''"
  using get_unknown_blank_metadata_first
      [of "\<lparr>metadata = [''name'' \<mapsto> PStr [CHR 0x20, CHR ''d'', CHR ''e'', CHR ''m'', CHR ''o'', CHR 0x09]],
        attrs = [''name'' \<mapsto> PStr ''other'']\<rparr>" "''name''"
          "[CHR 0x20, CHR ''d'', CHR ''e'', CHR ''m'', CHR ''o'', CHR 0x09]"]
    get_unknown_blank_metadata_first
      [of "\<lparr>metadata = [''name'' \<mapsto> PStr ''UNKNOWN''],
        attrs = [''name'' \<mapsto> PStr ''other'']\<rparr>" "''name''" "''UNKNOWN''"]
    get_unknown_blank_metadata_first
      [of "\<lparr>metadata = [''name'' \<mapsto> PStr ''''],
        attrs = [''name'' \<mapsto> PStr ''other'']\<rparr>" "''name''" "''other''"]
    get_unknown_blank_metadata_first
      [of "\<lparr>metadata = Map.empty, attrs = Map.empty\<rparr>" "''name''" "''''"]
  by (simp add: strip_def isspace_def getattr_def)

section \<open>Requirement rendering\<close>

text \<open>
  C4. \<^verbatim>\<open>_format_req\<close> renders a requirement as its name, then the extras in brackets and
  joined by commas if there are any, then the version constraint with no separator, then
  \<^verbatim>\<open>'; '\<close> and the marker if there is one, in this order; the requirement
  \<^verbatim>\<open>requests\<close> with the extra \<^verbatim>\<open>socks\<close>, the version \<^verbatim>\<open>>=2.0\<close> and the marker
  \<^verbatim>\<open>python_version>='3.6'\<close> is rendered as \<^verbatim>\<open>requests[socks]>=2.0; python_version>='3.6'\<close>.
\<close>

theorem format_req_pieces:
  "format_req req = concat (requirement_pieces req) \<and>
   format_req \<lparr>req_name = ''requests'', req_extras = [''socks''], req_version = ''>=2.0'',
               req_markers = Some (''python_version>='' @ [CHR 0x27] @ ''3.6'' @ [CHR 0x27]),
               main_envs = []\<rparr>
     = ''requests[socks]>=2.0; python_version>='' @ [CHR 0x27] @ ''3.6'' @ [CHR 0x27]"
  by (simp add: format_req_def requirement_pieces_def Let_def split: option.split)

theorem format_req_pieces_witness:
  "format_req \<lparr>req_name = ''flask'', req_extras = [''async'', ''dotenv''], req_version = '''',
               req_markers = None, main_envs = [''web'']\<rparr> = ''flask[async,dotenv]''"
  using format_req_pieces [of "\<lparr>req_name = ''flask'', req_extras = [''async'', ''dotenv''],
               req_version = '''', req_markers = None, main_envs = [''web'']\<rparr>"]
  by (simp add: requirement_pieces_def)

section \<open>The patched file-open primitive\<close>

text \<open>
  C10. In the namespace of the safe extraction, \<^verbatim>\<open>open\<close> is the patched function, and a
  call of it returns a buffer whose whole content is the first argument itself, as UTF-8
  bytes when the mode contains \<^verbatim>\<open>b\<close> and as text otherwise; no file is looked at. Opening
  \<^verbatim>\<open>README.rst\<close> in a script and reading it gives the text \<^verbatim>\<open>README.rst\<close>.
\<close>

theorem patched_open_content:
  "g_open (globe path) fname mode = patched_open fname mode \<and>
   read (patched_open fname mode) =
     (if CHR ''b'' \<in> set (case mode of None \<Rightarrow> ''r'' | Some m \<Rightarrow> m)
      then Bytes (encode_utf8 fname) else Text fname) \<and>
   read (g_open (globe ''setup.py'') ''README.rst'' None) = Text ''README.rst''"
  by (simp add: globe_def patched_open_def Let_def)

theorem patched_open_content_witness:
  "read (g_open (globe ''pkg/setup.py'') ''README.md'' (Some ''rb'')) =
     Bytes [0x52, 0x45, 0x41, 0x44, 0x4D, 0x45, 0x2E, 0x6D, 0x64]"
  using patched_open_content [of "''pkg/setup.py''" "''README.md''" "Some ''rb''"]
  by (simp add: encode_utf8_def)


section \<open>The assembly of the root\<close>

lemma tagged_append: "tagged es (xs @ ys) = tagged es xs @ tagged es ys"
  by (simp add: tagged_def)

lemma tagged_Nil: "tagged es [] = []"
  by (simp add: tagged_def)

lemma tagged_update: "map (\<lambda>dep. dep\<lparr>envs := es\<rparr>) deps = tagged es deps"
  by (simp add: tagged_def)

lemma tagged_envs: "d \<in> set (tagged es deps) \<Longrightarrow> envs d = es"
  by (auto simp: tagged_def)

lemma load_extra_reqs_exact:
  "load_extra_reqs w es marker rs root = Inr root' \<Longrightarrow>
     \<exists>dl. length dl = length rs \<and>
       root' = root\<lparr>dependencies := dependencies root @ tagged es (concat dl)\<rparr> \<and>
       (\<forall>i<length rs.
          make_deps w (root\<lparr>dependencies := dependencies root @ tagged es (concat (take i dl))\<rparr>)
            marker (rs ! i) = Inr (dl ! i))"
proof (induction rs arbitrary: root)
  case Nil
  then show ?case by (simp add: tagged_Nil)
next
  case (Cons req rs)
  let ?root1 = "attach_dependencies root (map (\<lambda>dep. dep\<lparr>envs := es\<rparr>) deps)"
  from Cons.prems obtain r deps where
    r: "Requirement w req = Inr r" and
    deps: "from_requirement w root r marker = Inr deps" and
    step: "load_extra_reqs w es marker rs
             (attach_dependencies root (map (\<lambda>dep. dep\<lparr>envs := es\<rparr>) deps)) = Inr root'"
    by (auto simp: bind_exc_Inr)
  define root1 where "root1 = root\<lparr>dependencies := dependencies root @ tagged es deps\<rparr>"
  have root1: "attach_dependencies root (map (\<lambda>dep. dep\<lparr>envs := es\<rparr>) deps) = root1"
    by (simp add: attach_dependencies_def tagged_update root1_def)
  from Cons.IH [OF step [unfolded root1]] obtain dl where
    len: "length dl = length rs" and
    fin: "root' = root1\<lparr>dependencies := dependencies root1 @ tagged es (concat dl)\<rparr>" and
    made: "\<forall>i<length rs.
          make_deps w (root1\<lparr>dependencies := dependencies root1 @ tagged es (concat (take i dl))\<rparr>)
            marker (rs ! i) = Inr (dl ! i)"
    by blast
  have thread: "\<And>xs. root1\<lparr>dependencies := dependencies root1 @ tagged es xs\<rparr> =
           root\<lparr>dependencies := dependencies root @ tagged es (deps @ xs)\<rparr>"
    by (simp add: root1_def tagged_append)
  have first: "make_deps w root marker req = Inr deps"
    using r deps by (simp add: make_deps_def)
  have "length (deps # dl) = length (req # rs)" using len by simp
  moreover have "root' = root\<lparr>dependencies := dependencies root @ tagged es (concat (deps # dl))\<rparr>"
    using fin thread by simp
  moreover have "\<forall>i<length (req # rs).
          make_deps w
            (root\<lparr>dependencies := dependencies root @ tagged es (concat (take i (deps # dl)))\<rparr>)
            marker ((req # rs) ! i) = Inr ((deps # dl) ! i)"
  proof (intro allI impI)
    fix i assume i: "i < length (req # rs)"
    show "make_deps w
            (root\<lparr>dependencies := dependencies root @ tagged es (concat (take i (deps # dl)))\<rparr>)
            marker ((req # rs) ! i) = Inr ((deps # dl) ! i)"
    proof (cases i)
      case 0
      then show ?thesis using first by (simp add: tagged_Nil)
    next
      case (Suc j)
      with i have "j < length rs" by simp
      with made have "make_deps w
          (root1\<lparr>dependencies := dependencies root1 @ tagged es (concat (take j dl))\<rparr>)
            marker (rs ! j) = Inr (dl ! j)" by blast
      then show ?thesis using Suc thread by simp
    qed
  qed
  ultimately show ?case by blast
qed

lemma load_extras_exact:
  "load_extras w extras root = Inr root' \<Longrightarrow>
     \<exists>dss. length dss = length extras \<and>
       root' = root\<lparr>dependencies := dependencies root @ concat dss\<rparr> \<and>
       (\<forall>i<length extras.
          \<exists>rs dl. iterate (snd (extras ! i)) = Inr rs \<and> length dl = length rs \<and>
            dss ! i = tagged (extra_envs (fst (split_extra_and_marker w (fst (extras ! i)))))
                        (concat dl) \<and>
            (\<forall>j<length rs.
               make_deps w
                 (root\<lparr>dependencies := dependencies root @ concat (take i dss) @
                    tagged (extra_envs (fst (split_extra_and_marker w (fst (extras ! i)))))
                      (concat (take j dl))\<rparr>)
                 (snd (split_extra_and_marker w (fst (extras ! i)))) (rs ! j) = Inr (dl ! j)))"
proof (induction extras arbitrary: root)
  case Nil
  then show ?case by simp
next
  case (Cons entry extras)
  obtain key reqs where entry: "entry = (key, reqs)" by (cases entry)
  obtain extra marker where sp: "split_extra_and_marker w key = (extra, marker)"
    by (cases "split_extra_and_marker w key")
  let ?es = "if extra = ''dev'' then {extra} else {''main'', extra}"
  have es: "?es = extra_envs extra" by (simp add: extra_envs_def)
  from Cons.prems entry sp obtain rs mid where
    it: "iterate reqs = Inr rs" and
    inner: "load_extra_reqs w (extra_envs extra) marker rs root = Inr mid" and
    rest: "load_extras w extras mid = Inr root'"
    unfolding es [symmetric] by (auto simp: bind_exc_Inr)
  from load_extra_reqs_exact [OF inner] obtain dl where
    len: "length dl = length rs" and
    mid: "mid = root\<lparr>dependencies := dependencies root @ tagged (extra_envs extra) (concat dl)\<rparr>" and
    made: "\<forall>j<length rs.
          make_deps w
            (root\<lparr>dependencies := dependencies root @
                tagged (extra_envs extra) (concat (take j dl))\<rparr>)
            marker (rs ! j) = Inr (dl ! j)"
    by blast
  define ds where "ds = tagged (extra_envs extra) (concat dl)"
  have thread: "\<And>xs. mid\<lparr>dependencies := dependencies mid @ xs\<rparr> =
           root\<lparr>dependencies := dependencies root @ ds @ xs\<rparr>"
    by (simp add: mid ds_def)
  from Cons.IH [OF rest] obtain dss where
    lens: "length dss = length extras" and
    fin: "root' = mid\<lparr>dependencies := dependencies mid @ concat dss\<rparr>" and
    ents: "\<forall>i<length extras.
          \<exists>rs dl. iterate (snd (extras ! i)) = Inr rs \<and> length dl = length rs \<and>
            dss ! i = tagged (extra_envs (fst (split_extra_and_marker w (fst (extras ! i)))))
                        (concat dl) \<and>
            (\<forall>j<length rs.
               make_deps w
                 (mid\<lparr>dependencies := dependencies mid @ concat (take i dss) @
                    tagged (extra_envs (fst (split_extra_and_marker w (fst (extras ! i)))))
                      (concat (take j dl))\<rparr>)
                 (snd (split_extra_and_marker w (fst (extras ! i)))) (rs ! j) = Inr (dl ! j))"
    by blast
  have "length (ds # dss) = length (entry # extras)" using lens by simp
  moreover have "root' = root\<lparr>dependencies := dependencies root @ concat (ds # dss)\<rparr>"
    using fin thread by simp
  moreover have "\<forall>i<length (entry # extras).
          \<exists>rs dl. iterate (snd ((entry # extras) ! i)) = Inr rs \<and> length dl = length rs \<and>
            (ds # dss) ! i =
              tagged (extra_envs (fst (split_extra_and_marker w (fst ((entry # extras) ! i)))))
                (concat dl) \<and>
            (\<forall>j<length rs.
               make_deps w
                 (root\<lparr>dependencies := dependencies root @ concat (take i (ds # dss)) @
                    tagged (extra_envs (fst (split_extra_and_marker w (fst ((entry # extras) ! i)))))
                      (concat (take j dl))\<rparr>)
                 (snd (split_extra_and_marker w (fst ((entry # extras) ! i)))) (rs ! j)
               = Inr (dl ! j))"
  proof (intro allI impI)
    fix i assume i: "i < length (entry # extras)"
    show "\<exists>rs dl. iterate (snd ((entry # extras) ! i)) = Inr rs \<and> length dl = length rs \<and>
            (ds # dss) ! i =
              tagged (extra_envs (fst (split_extra_and_marker w (fst ((entry # extras) ! i)))))
                (concat dl) \<and>
            (\<forall>j<length rs.
               make_deps w
                 (root\<lparr>dependencies := dependencies root @ concat (take i (ds # dss)) @
                    tagged (extra_envs (fst (split_extra_and_marker w (fst ((entry # extras) ! i)))))
                      (concat (take j dl))\<rparr>)
                 (snd (split_extra_and_marker w (fst ((entry # extras) ! i)))) (rs ! j)
               = Inr (dl ! j))"
    proof (cases i)
      case 0
      show ?thesis
        unfolding 0
        by (rule exI [of _ rs], rule exI [of _ dl])
           (use it len made entry sp in \<open>simp add: ds_def\<close>)
    next
      case (Suc k)
      with i have k: "k < length extras" by simp
      from ents [rule_format, OF k] obtain rs' dl' where
        e1: "iterate (snd (extras ! k)) = Inr rs'" "length dl' = length rs'"
          "dss ! k = tagged (extra_envs (fst (split_extra_and_marker w (fst (extras ! k)))))
                        (concat dl')" and
        e2: "\<forall>j<length rs'.
               make_deps w
                 (mid\<lparr>dependencies := dependencies mid @ concat (take k dss) @
                    tagged (extra_envs (fst (split_extra_and_marker w (fst (extras ! k)))))
                      (concat (take j dl'))\<rparr>)
                 (snd (split_extra_and_marker w (fst (extras ! k)))) (rs' ! j) = Inr (dl' ! j)"
        by blast
      show ?thesis
        unfolding Suc
        by (rule exI [of _ rs'], rule exI [of _ dl'])
           (use e1 e2 thread in simp)
    qed
  qed
  ultimately show ?case by blast
qed


lemma load_info_extras:
  assumes "load_info w path info = Inr root"
  shows "\<exists>r base extras.
           load_install_requires w info r = Inr base \<and>
           items (getattr (attrs info) ''extras_require'' (PDict [])) = Inr extras \<and>
           load_extras w extras base = Inr root"
  using assms unfolding load_info_def by (elim bind_exc_InrE) blast

text \<open>
  C5. \<^verbatim>\<open>load\<close> ends with the loop over the items of \<^verbatim>\<open>extras_require\<close>, run on the root that
  holds the dependencies of \<^verbatim>\<open>install_requires\<close>. The loop attaches to the root, entry by
  entry and in order, exactly the dependencies made from the requirements of that entry
  with the entry's marker, and every one of them carries the environments computed
  from the entry's extra name with the marker split off: \<^verbatim>\<open>{"dev"}\<close> when the name is \<^verbatim>\<open>dev\<close>,
  and \<^verbatim>\<open>{"main", name}\<close> for every other name. Nothing else of the root changes.
\<close>

theorem load_extras_envs:
  "(load_info w path info = Inr root' \<longrightarrow>
      (\<exists>r base extras.
         load_install_requires w info r = Inr base \<and>
         items (getattr (attrs info) ''extras_require'' (PDict [])) = Inr extras \<and>
         load_extras w extras base = Inr root')) \<and>
   (load_extras w extras root = Inr root' \<longrightarrow>
      (\<exists>dss. length dss = length extras \<and>
         root' = root\<lparr>dependencies := dependencies root @ concat dss\<rparr> \<and>
         (\<forall>i<length extras.
            (\<forall>d\<in>set (dss ! i).
               envs d = extra_envs (fst (split_extra_and_marker w (fst (extras ! i))))) \<and>
            (\<exists>rs dl. iterate (snd (extras ! i)) = Inr rs \<and> length dl = length rs \<and>
               dss ! i = tagged (extra_envs (fst (split_extra_and_marker w (fst (extras ! i)))))
                           (concat dl) \<and>
               (\<forall>j<length rs.
                  make_deps w
                    (root\<lparr>dependencies := dependencies root @ concat (take i dss) @
                       tagged (extra_envs (fst (split_extra_and_marker w (fst (extras ! i)))))
                         (concat (take j dl))\<rparr>)
                    (snd (split_extra_and_marker w (fst (extras ! i)))) (rs ! j)
                  = Inr (dl ! j))))))"
proof (intro conjI impI)
  assume "load_info w path info = Inr root'"
  then show "\<exists>r base extras.
         load_install_requires w info r = Inr base \<and>
         items (getattr (attrs info) ''extras_require'' (PDict [])) = Inr extras \<and>
         load_extras w extras base = Inr root'"
    by (rule load_info_extras)
next
  assume "load_extras w extras root = Inr root'"
  from load_extras_exact [OF this] obtain dss where
    len: "length dss = length extras" and
    fin: "root' = root\<lparr>dependencies := dependencies root @ concat dss\<rparr>" and
    ents: "\<forall>i<length extras.
          \<exists>rs dl. iterate (snd (extras ! i)) = Inr rs \<and> length dl = length rs \<and>
            dss ! i = tagged (extra_envs (fst (split_extra_and_marker w (fst (extras ! i)))))
                        (concat dl) \<and>
            (\<forall>j<length rs.
               make_deps w
                 (root\<lparr>dependencies := dependencies root @ concat (take i dss) @
                    tagged (extra_envs (fst (split_extra_and_marker w (fst (extras ! i)))))
                      (concat (take j dl))\<rparr>)
                 (snd (split_extra_and_marker w (fst (extras ! i)))) (rs ! j) = Inr (dl ! j))"
    by blast
  have "\<forall>i<length extras. \<forall>d\<in>set (dss ! i).
          envs d = extra_envs (fst (split_extra_and_marker w (fst (extras ! i))))"
  proof (intro allI impI ballI)
    fix i d assume i: "i < length extras" and d: "d \<in> set (dss ! i)"
    from ents [rule_format, OF i] obtain dl where
      "dss ! i = tagged (extra_envs (fst (split_extra_and_marker w (fst (extras ! i)))))
                        (concat dl)"
      by blast
    with d show "envs d = extra_envs (fst (split_extra_and_marker w (fst (extras ! i))))"
      by (simp add: tagged_envs)
  qed
  with len fin ents show "\<exists>dss. length dss = length extras \<and>
         root' = root\<lparr>dependencies := dependencies root @ concat dss\<rparr> \<and>
         (\<forall>i<length extras.
            (\<forall>d\<in>set (dss ! i).
               envs d = extra_envs (fst (split_extra_and_marker w (fst (extras ! i))))) \<and>
            (\<exists>rs dl. iterate (snd (extras ! i)) = Inr rs \<and> length dl = length rs \<and>
               dss ! i = tagged (extra_envs (fst (split_extra_and_marker w (fst (extras ! i)))))
                           (concat dl) \<and>
               (\<forall>j<length rs.
                  make_deps w
                    (root\<lparr>dependencies := dependencies root @ concat (take i dss) @
                       tagged (extra_envs (fst (split_extra_and_marker w (fst (extras ! i)))))
                         (concat (take j dl))\<rparr>)
                    (snd (split_extra_and_marker w (fst (extras ! i)))) (rs ! j)
                  = Inr (dl ! j))))"
    by (intro exI [of _ dss]) simp
qed

theorem load_extras_envs_witness:
  "load_info (script_world '''' \<lparr>raised = None, dist_var = PNone\<rparr> (Inl (Exception ''E'' '''')))
      ''setup.py''
      \<lparr>metadata = [''name'' \<mapsto> PStr ''demo'', ''version'' \<mapsto> PStr ''1.0''],
       attrs = [''install_requires'' \<mapsto> PList [PStr ''flask''],
                ''extras_require'' \<mapsto>
                 PDict [(''dev'', PList [PStr ''pytest'']),
                        (''tests'', PList [PStr ''nose'', PStr ''coverage''])]]\<rparr>
     = Inr ((bare_root ''demo'' ''1.0'')
             \<lparr>dependencies :=
                [\<lparr>dep_data = PStr ''flask'', envs = {''main''}\<rparr>,
                 \<lparr>dep_data = PStr ''pytest'', envs = {''dev''}\<rparr>,
                 \<lparr>dep_data = PStr ''nose'', envs = {''main'', ''tests''}\<rparr>,
                 \<lparr>dep_data = PStr ''coverage'', envs = {''main'', ''tests''}\<rparr>]\<rparr>) \<and>
   load_extras (script_world '''' \<lparr>raised = None, dist_var = PNone\<rparr> (Inl (Exception ''E'' '''')))
       [(''dev'', PList [PStr ''pytest'']), (''tests'', PList [PStr ''nose'', PStr ''coverage''])]
       ((bare_root ''demo'' ''1.0'')
          \<lparr>dependencies := [\<lparr>dep_data = PStr ''flask'', envs = {''main''}\<rparr>]\<rparr>)
     = Inr ((bare_root ''demo'' ''1.0'')
             \<lparr>dependencies :=
                [\<lparr>dep_data = PStr ''flask'', envs = {''main''}\<rparr>,
                 \<lparr>dep_data = PStr ''pytest'', envs = {''dev''}\<rparr>,
                 \<lparr>dep_data = PStr ''nose'', envs = {''main'', ''tests''}\<rparr>,
                 \<lparr>dep_data = PStr ''coverage'', envs = {''main'', ''tests''}\<rparr>]\<rparr>) \<and>
   (\<exists>r base extras.
      load_install_requires
        (script_world '''' \<lparr>raised = None, dist_var = PNone\<rparr> (Inl (Exception ''E'' '''')))
        \<lparr>metadata = [''name'' \<mapsto> PStr ''demo'', ''version'' \<mapsto> PStr ''1.0''],
         attrs = [''install_requires'' \<mapsto> PList [PStr ''flask''],
                  ''extras_require'' \<mapsto>
                   PDict [(''dev'', PList [PStr ''pytest'']),
                          (''tests'', PList [PStr ''nose'', PStr ''coverage''])]]\<rparr> r = Inr base \<and>
      items (getattr
        (attrs \<lparr>metadata = [''name'' \<mapsto> PStr ''demo'', ''version'' \<mapsto> PStr ''1.0''],
         attrs = [''install_requires'' \<mapsto> PList [PStr ''flask''],
                  ''extras_require'' \<mapsto>
                   PDict [(''dev'', PList [PStr ''pytest'']),
                          (''tests'', PList [PStr ''nose'', PStr ''coverage''])]]\<rparr>)
        ''extras_require'' (PDict [])) = Inr extras \<and>
      load_extras
        (script_world '''' \<lparr>raised = None, dist_var = PNone\<rparr> (Inl (Exception ''E'' '''')))
        extras base
      = Inr ((bare_root ''demo'' ''1.0'')
             \<lparr>dependencies :=
                [\<lparr>dep_data = PStr ''flask'', envs = {''main''}\<rparr>,
                 \<lparr>dep_data = PStr ''pytest'', envs = {''dev''}\<rparr>,
                 \<lparr>dep_data = PStr ''nose'', envs = {''main'', ''tests''}\<rparr>,
                 \<lparr>dep_data = PStr ''coverage'', envs = {''main'', ''tests''}\<rparr>]\<rparr>))"
proof -
  have run: "load_extras (script_world '''' \<lparr>raised = None, dist_var = PNone\<rparr> (Inl (Exception ''E'' '''')))
       [(''dev'', PList [PStr ''pytest'']), (''tests'', PList [PStr ''nose'', PStr ''coverage''])]
       ((bare_root ''demo'' ''1.0'')
          \<lparr>dependencies := [\<lparr>dep_data = PStr ''flask'', envs = {''main''}\<rparr>]\<rparr>)
     = Inr ((bare_root ''demo'' ''1.0'')
             \<lparr>dependencies :=
                [\<lparr>dep_data = PStr ''flask'', envs = {''main''}\<rparr>,
                 \<lparr>dep_data = PStr ''pytest'', envs = {''dev''}\<rparr>,
                 \<lparr>dep_data = PStr ''nose'', envs = {''main'', ''tests''}\<rparr>,
                 \<lparr>dep_data = PStr ''coverage'', envs = {''main'', ''tests''}\<rparr>]\<rparr>)"
    by (simp add: script_world_def attach_dependencies_def bare_root_def Let_def)
  have asm: "load_info (script_world '''' \<lparr>raised = None, dist_var = PNone\<rparr> (Inl (Exception ''E'' '''')))
      ''setup.py''
      \<lparr>metadata = [''name'' \<mapsto> PStr ''demo'', ''version'' \<mapsto> PStr ''1.0''],
       attrs = [''install_requires'' \<mapsto> PList [PStr ''flask''],
                ''extras_require'' \<mapsto>
                 PDict [(''dev'', PList [PStr ''pytest'']),
                        (''tests'', PList [PStr ''nose'', PStr ''coverage''])]]\<rparr>
     = Inr ((bare_root ''demo'' ''1.0'')
             \<lparr>dependencies :=
                [\<lparr>dep_data = PStr ''flask'', envs = {''main''}\<rparr>,
                 \<lparr>dep_data = PStr ''pytest'', envs = {''dev''}\<rparr>,
                 \<lparr>dep_data = PStr ''nose'', envs = {''main'', ''tests''}\<rparr>,
                 \<lparr>dep_data = PStr ''coverage'', envs = {''main'', ''tests''}\<rparr>]\<rparr>)"
    by (simp add: script_world_def load_info_def new_root_def get_def get_list_def getattr_def
        load_entrypoints_def load_install_requires_def attach_dependencies_def
        bare_root_def strip_def isspace_def Let_def)
  note inst = load_extras_envs
     [of "script_world '''' \<lparr>raised = None, dist_var = PNone\<rparr> (Inl (Exception ''E'' ''''))"
         "''setup.py''"
         "\<lparr>metadata = [''name'' \<mapsto> PStr ''demo'', ''version'' \<mapsto> PStr ''1.0''],
           attrs = [''install_requires'' \<mapsto> PList [PStr ''flask''],
                ''extras_require'' \<mapsto>
                 PDict [(''dev'', PList [PStr ''pytest'']),
                        (''tests'', PList [PStr ''nose'', PStr ''coverage''])]]\<rparr>"
         "(bare_root ''demo'' ''1.0'')
             \<lparr>dependencies :=
                [\<lparr>dep_data = PStr ''flask'', envs = {''main''}\<rparr>,
                 \<lparr>dep_data = PStr ''pytest'', envs = {''dev''}\<rparr>,
                 \<lparr>dep_data = PStr ''nose'', envs = {''main'', ''tests''}\<rparr>,
                 \<lparr>dep_data = PStr ''coverage'', envs = {''main'', ''tests''}\<rparr>]\<rparr>"
         "[(''dev'', PList [PStr ''pytest'']), (''tests'', PList [PStr ''nose'', PStr ''coverage''])]"
         "(bare_root ''demo'' ''1.0'')
          \<lparr>dependencies := [\<lparr>dep_data = PStr ''flask'', envs = {''main''}\<rparr>]\<rparr>"]
  from inst [THEN conjunct1, rule_format, OF asm] run asm
  show ?thesis by (intro conjI)
qed


section \<open>The textual rewrite\<close>

lemma take_self_le:
  assumes "take (length old) s = old"
  shows "length old \<le> length s"
proof -
  have "length (take (length old) s) = length old" using assms by simp
  then show ?thesis by (simp add: min_def split: if_splits)
qed

lemma replace_length_ge:
  "old \<noteq> [] \<Longrightarrow> length old \<le> length new \<Longrightarrow> length s \<le> length (replace old new s)"
proof (induction old new s rule: replace.induct)
  case (1 old new s)
  show ?case
  proof (cases "s = []")
    case True
    then show ?thesis by simp
  next
    case ne: False
    show ?thesis
    proof (cases "take (length old) s = old")
      case True
      then have le: "length old \<le> length s"
        by (rule take_self_le)
      have "length (drop (length old) s) \<le> length (replace old new (drop (length old) s))"
        using "1.IH"(1) "1.prems" ne True by simp
      moreover have "replace old new s = new @ replace old new (drop (length old) s)"
        using "1.prems"(1) ne True by (subst replace.simps) simp
      ultimately show ?thesis using le "1.prems"(2) by simp
    next
      case False
      have "length (tl s) \<le> length (replace old new (tl s))"
        using "1.IH"(2) "1.prems" ne False by simp
      moreover have "replace old new s = hd s # replace old new (tl s)"
        using "1.prems"(1) ne False by (subst replace.simps) simp
      ultimately show ?thesis using ne by (cases s) simp_all
    qed
  qed
qed

lemma replace_changes:
  "old \<noteq> [] \<Longrightarrow> length old < length new \<Longrightarrow> contains old s \<Longrightarrow>
     length s < length (replace old new s)"
proof (induction old new s rule: replace.induct)
  case (1 old new s)
  from "1.prems"(1,3) have ne: "s \<noteq> []" by (cases s) auto
  show ?case
  proof (cases "take (length old) s = old")
    case True
    then have le: "length old \<le> length s"
      by (rule take_self_le)
    have "length (drop (length old) s) \<le> length (replace old new (drop (length old) s))"
      by (rule replace_length_ge) (use "1.prems" in simp_all)
    moreover have "replace old new s = new @ replace old new (drop (length old) s)"
      using "1.prems"(1) ne True by (subst replace.simps) simp
    ultimately show ?thesis using le "1.prems"(2) by simp
  next
    case False
    then have "contains old (tl s)" using "1.prems"(3) ne by (cases s) auto
    then have "length (tl s) < length (replace old new (tl s))"
      using "1.IH"(2) "1.prems"(1,2) ne False by simp
    moreover have "replace old new s = hd s # replace old new (tl s)"
      using "1.prems"(1) ne False by (subst replace.simps) simp
    ultimately show ?thesis using ne by (cases s) simp_all
  qed
qed

lemma replace_same:
  "old \<noteq> [] \<Longrightarrow> \<not> contains old s \<Longrightarrow> replace old new s = s"
proof (induction old new s rule: replace.induct)
  case (1 old new s)
  show ?case
  proof (cases "s = []")
    case True
    with "1.prems"(1) show ?thesis by (subst replace.simps) simp
  next
    case ne: False
    from "1.prems"(2) ne have nm: "take (length old) s \<noteq> old" and nt: "\<not> contains old (tl s)"
      by (cases s; auto)+
    have "replace old new (tl s) = tl s"
      using "1.IH"(2) "1.prems"(1) ne nm nt by simp
    moreover have "replace old new s = hd s # replace old new (tl s)"
      using "1.prems"(1) ne nm by (subst replace.simps) simp
    ultimately show ?thesis using ne by simp
  qed
qed

lemma rewrite_noop_iff:
  "replace ''setup('' ''_dist = dict('' source = source \<longleftrightarrow> \<not> contains ''setup('' source"
proof
  assume eq: "replace ''setup('' ''_dist = dict('' source = source"
  show "\<not> contains ''setup('' source"
  proof
    assume "contains ''setup('' source"
    then have "length source < length (replace ''setup('' ''_dist = dict('' source)"
      by (intro replace_changes) simp_all
    with eq show False by simp
  qed
next
  assume "\<not> contains ''setup('' source"
  then show "replace ''setup('' ''_dist = dict('' source = source"
    by (intro replace_same) simp_all
qed

lemma replace_demo:
  "replace ''setup('' ''_dist = dict('' ''setup(name=NAME)'' = ''_dist = dict(name=NAME)''"
  by (simp add: replace.simps)


section \<open>The version default\<close>




















section \<open>The safe extraction\<close>

lemma execute_unmodified:
  "read_text w path = Inr source \<Longrightarrow> \<not> contains ''setup('' source \<Longrightarrow>
     execute w path lg = (Inr None, lg @ [(ERROR, ''cannot modify source'')])"
  by (simp add: execute_def rewrite_noop_iff)

lemma execute_modified:
  "read_text w path = Inr source \<Longrightarrow> contains ''setup('' source \<Longrightarrow>
     execute w path lg =
       (let r = exec w (replace ''setup('' ''_dist = dict('' source) path (globe path)
        in case raised r of
             None \<Rightarrow> captured w (dist_var r) lg
           | Some e \<Rightarrow>
               if is_Exception e
               then captured w (dist_var r) (lg @ [(ERROR, exc_type e @ '': '' @ exc_msg e)])
               else (Inl e, lg))"
  by (simp add: execute_def rewrite_noop_iff Let_def)

lemma captured_result:
  "fst (captured w dist lg) =
     (if dist = PNone then Inr None
      else case Distribution w dist of Inl e \<Rightarrow> Inl e | Inr info \<Rightarrow> Inr (Some info)) \<and>
   set lg \<subseteq> set (snd (captured w dist lg)) \<and>
   (dist = PNone \<longrightarrow> (ERROR, ''distribution was not called'') \<in> set (snd (captured w dist lg)))"
  by (auto simp: captured_def split: sum.splits)

lemma captured_Inl:
  "fst (captured w dist lg) = Inl e \<Longrightarrow> dist \<noteq> PNone \<and> Distribution w dist = Inl e"
  by (auto simp: captured_def split: sum.splits if_splits)

lemma load_after_execute:
  "fst (load w path lg) =
     (case fst (execute w path lg) of
        Inl e \<Rightarrow> Inl e
      | Inr None \<Rightarrow> (case run_setup w path of Inl e \<Rightarrow> Inl e | Inr info \<Rightarrow> load_info w path info)
      | Inr (Some info) \<Rightarrow> load_info w path info)"
  by (auto simp: load_def split: prod.splits sum.splits option.splits)

text \<open>
  C3, as amended. Of a script that can be read, the safe extraction lets an exception
  out only in two cases: the rewritten script raised it and it does not derive from
  \<^verbatim>\<open>Exception\<close> (\<^verbatim>\<open>SystemExit\<close>, \<^verbatim>\<open>KeyboardInterrupt\<close>), or the constructor \<^verbatim>\<open>Distribution(dist)\<close>,
  which is called outside the \<^verbatim>\<open>try\<close> block on the captured arguments, raised it. An
  exception of the rewritten script that derives from \<^verbatim>\<open>Exception\<close> is caught and logged,
  and the extraction goes on as after a run without exception. When the source has no
  \<^verbatim>\<open>setup(\<close> marker the rewrite changes nothing, the script is not run and the result is
  \<^verbatim>\<open>None\<close>; when the run lets no exception out and leaves \<^verbatim>\<open>_dist\<close> unset the result is
  \<^verbatim>\<open>None\<close> as well, both logged. Whenever the result is \<^verbatim>\<open>None\<close>, \<^verbatim>\<open>load\<close> goes on with
  \<^verbatim>\<open>run_setup\<close>: it raises what that raises and assembles the root from what that returns.
\<close>

theorem execute_catches_Exception:
  assumes "read_text w path = Inr source"
  shows
   "(\<not> contains ''setup('' source \<longrightarrow>
       execute w path lg = (Inr None, lg @ [(ERROR, ''cannot modify source'')])) \<and>
    (\<forall>e. fst (execute w path lg) = Inl e \<longrightarrow>
       contains ''setup('' source \<and>
       (raised (exec w (replace ''setup('' ''_dist = dict('' source) path (globe path)) = Some e \<and>
          \<not> is_Exception e \<or>
        (\<forall>e'. raised (exec w (replace ''setup('' ''_dist = dict('' source) path (globe path))
                 = Some e' \<longrightarrow> is_Exception e') \<and>
          dist_var (exec w (replace ''setup('' ''_dist = dict('' source) path (globe path)) \<noteq> PNone \<and>
          Distribution w
            (dist_var (exec w (replace ''setup('' ''_dist = dict('' source) path (globe path)))
            = Inl e)) \<and>
    (\<forall>e. contains ''setup('' source \<and> is_Exception e \<and>
         raised (exec w (replace ''setup('' ''_dist = dict('' source) path (globe path)) = Some e \<longrightarrow>
       fst (execute w path lg) =
         (if dist_var (exec w (replace ''setup('' ''_dist = dict('' source) path (globe path)) = PNone
          then Inr None
          else case Distribution w
                 (dist_var (exec w (replace ''setup('' ''_dist = dict('' source) path (globe path)))
               of Inl e' \<Rightarrow> Inl e' | Inr info \<Rightarrow> Inr (Some info)) \<and>
       (ERROR, exc_type e @ '': '' @ exc_msg e) \<in> set (snd (execute w path lg))) \<and>
    (contains ''setup('' source \<and>
     dist_var (exec w (replace ''setup('' ''_dist = dict('' source) path (globe path)) = PNone \<and>
     (\<forall>e. raised (exec w (replace ''setup('' ''_dist = dict('' source) path (globe path)) = Some e
          \<longrightarrow> is_Exception e) \<longrightarrow>
       fst (execute w path lg) = Inr None \<and>
       (ERROR, ''distribution was not called'') \<in> set (snd (execute w path lg))) \<and>
    (fst (execute w path lg) = Inr None \<longrightarrow>
       fst (load w path lg) =
         (case run_setup w path of Inl e \<Rightarrow> Inl e | Inr info \<Rightarrow> load_info w path info))"
proof (intro conjI)
  show "\<not> contains ''setup('' source \<longrightarrow>
       execute w path lg = (Inr None, lg @ [(ERROR, ''cannot modify source'')])"
    using execute_unmodified [OF assms] by blast
next
  let ?r = "exec w (replace ''setup('' ''_dist = dict('' source) path (globe path)"
  show "\<forall>e. fst (execute w path lg) = Inl e \<longrightarrow>
       contains ''setup('' source \<and>
       (raised ?r = Some e \<and> \<not> is_Exception e \<or>
        (\<forall>e'. raised ?r = Some e' \<longrightarrow> is_Exception e') \<and>
          dist_var ?r \<noteq> PNone \<and> Distribution w (dist_var ?r) = Inl e)"
  proof (intro allI impI)
    fix e assume out: "fst (execute w path lg) = Inl e"
    have c: "contains ''setup('' source"
      using out execute_unmodified [OF assms, of lg] by (cases "contains ''setup('' source") auto
    note ex = execute_modified [OF assms c, of lg]
    have "raised ?r = Some e \<and> \<not> is_Exception e \<or>
        (\<forall>e'. raised ?r = Some e' \<longrightarrow> is_Exception e') \<and>
          dist_var ?r \<noteq> PNone \<and> Distribution w (dist_var ?r) = Inl e"
    proof (cases "raised ?r")
      case None
      with ex out have "fst (captured w (dist_var ?r) lg) = Inl e" by (simp add: Let_def)
      from captured_Inl [OF this] None show ?thesis by simp
    next
      case (Some e0)
      show ?thesis
      proof (cases "is_Exception e0")
        case True
        with ex out Some have
          "fst (captured w (dist_var ?r) (lg @ [(ERROR, exc_type e0 @ '': '' @ exc_msg e0)])) = Inl e"
          by (simp add: Let_def)
        from captured_Inl [OF this] Some True show ?thesis by simp
      next
        case False
        with ex out Some have "e = e0" by (simp add: Let_def)
        with Some False show ?thesis by simp
      qed
    qed
    with c show "contains ''setup('' source \<and>
       (raised ?r = Some e \<and> \<not> is_Exception e \<or>
        (\<forall>e'. raised ?r = Some e' \<longrightarrow> is_Exception e') \<and>
          dist_var ?r \<noteq> PNone \<and> Distribution w (dist_var ?r) = Inl e)"
      by blast
  qed
next
  let ?r = "exec w (replace ''setup('' ''_dist = dict('' source) path (globe path)"
  show "\<forall>e. contains ''setup('' source \<and> is_Exception e \<and> raised ?r = Some e \<longrightarrow>
       fst (execute w path lg) =
         (if dist_var ?r = PNone then Inr None
          else case Distribution w (dist_var ?r)
               of Inl e' \<Rightarrow> Inl e' | Inr info \<Rightarrow> Inr (Some info)) \<and>
       (ERROR, exc_type e @ '': '' @ exc_msg e) \<in> set (snd (execute w path lg))"
  proof (intro allI impI)
    fix e assume h: "contains ''setup('' source \<and> is_Exception e \<and> raised ?r = Some e"
    then have "execute w path lg =
        captured w (dist_var ?r) (lg @ [(ERROR, exc_type e @ '': '' @ exc_msg e)])"
      using execute_modified [OF assms, of lg] by (simp add: Let_def)
    then show "fst (execute w path lg) =
         (if dist_var ?r = PNone then Inr None
          else case Distribution w (dist_var ?r)
               of Inl e' \<Rightarrow> Inl e' | Inr info \<Rightarrow> Inr (Some info)) \<and>
       (ERROR, exc_type e @ '': '' @ exc_msg e) \<in> set (snd (execute w path lg))"
      using captured_result [of w "dist_var ?r" "lg @ [(ERROR, exc_type e @ '': '' @ exc_msg e)]"]
      by auto
  qed
next
  let ?r = "exec w (replace ''setup('' ''_dist = dict('' source) path (globe path)"
  show "contains ''setup('' source \<and> dist_var ?r = PNone \<and>
     (\<forall>e. raised ?r = Some e \<longrightarrow> is_Exception e) \<longrightarrow>
       fst (execute w path lg) = Inr None \<and>
       (ERROR, ''distribution was not called'') \<in> set (snd (execute w path lg))"
  proof
    assume h: "contains ''setup('' source \<and> dist_var ?r = PNone \<and>
     (\<forall>e. raised ?r = Some e \<longrightarrow> is_Exception e)"
    then obtain lg' where "execute w path lg = captured w PNone lg'"
      using execute_modified [OF assms, of lg]
      by (cases "raised ?r") (auto simp: Let_def)
    then show "fst (execute w path lg) = Inr None \<and>
       (ERROR, ''distribution was not called'') \<in> set (snd (execute w path lg))"
      using captured_result [of w PNone lg'] by simp
  qed
next
  show "fst (execute w path lg) = Inr None \<longrightarrow>
       fst (load w path lg) =
         (case run_setup w path of Inl e \<Rightarrow> Inl e | Inr info \<Rightarrow> load_info w path info)"
    by (simp add: load_after_execute)
qed


theorem execute_catches_Exception_witness:
  "execute (script_world ''setup(name=NAME)''
              \<lparr>raised = Some (Exception ''NameError'' ''name NAME is not defined''), dist_var = PNone\<rparr>
              (Inr \<lparr>metadata = [''name'' \<mapsto> PStr ''demo'', ''version'' \<mapsto> PStr ''2.0''],
                    attrs = Map.empty\<rparr>))
           ''setup.py'' []
     = (Inr None, [(ERROR, ''NameError: name NAME is not defined''),
                   (ERROR, ''distribution was not called'')]) \<and>
   fst (load (script_world ''setup(name=NAME)''
              \<lparr>raised = Some (Exception ''NameError'' ''name NAME is not defined''), dist_var = PNone\<rparr>
              (Inr \<lparr>metadata = [''name'' \<mapsto> PStr ''demo'', ''version'' \<mapsto> PStr ''2.0''],
                    attrs = Map.empty\<rparr>))
           ''setup.py'' [])
     = Inr (bare_root ''demo'' ''2.0'')"
proof -
  have rd: "read_text (script_world ''setup(name=NAME)''
              \<lparr>raised = Some (Exception ''NameError'' ''name NAME is not defined''), dist_var = PNone\<rparr>
              (Inr \<lparr>metadata = [''name'' \<mapsto> PStr ''demo'', ''version'' \<mapsto> PStr ''2.0''],
                    attrs = Map.empty\<rparr>)) ''setup.py'' = Inr ''setup(name=NAME)''"
    by (simp add: script_world_def)
  have ex: "execute (script_world ''setup(name=NAME)''
              \<lparr>raised = Some (Exception ''NameError'' ''name NAME is not defined''), dist_var = PNone\<rparr>
              (Inr \<lparr>metadata = [''name'' \<mapsto> PStr ''demo'', ''version'' \<mapsto> PStr ''2.0''],
                    attrs = Map.empty\<rparr>))
           ''setup.py'' []
     = (Inr None, [(ERROR, ''NameError: name NAME is not defined''),
                   (ERROR, ''distribution was not called'')])"
    by (simp add: execute_def captured_def script_world_def replace_demo)
  from execute_catches_Exception [OF rd, of "[]"] ex show ?thesis
    by (simp add: script_world_def load_info_def new_root_def get_def get_list_def getattr_def
        load_entrypoints_def load_install_requires_def attach_dependencies_def
        bare_root_def strip_def isspace_def Let_def)
qed

text \<open>
  Without the restriction to \<^verbatim>\<open>Exception\<close> the statement fails: a script that calls
  \<^verbatim>\<open>sys.exit(1)\<close> before it reaches \<^verbatim>\<open>setup(\<close> ends the run with \<^verbatim>\<open>SystemExit\<close>, which
  \<^verbatim>\<open>except Exception\<close> does not catch, and the exception leaves \<^verbatim>\<open>_execute\<close>.
\<close>

theorem execute_SystemExit_counterexample:
  "execute (script_world ''import sys; sys.exit(1); setup()''
              \<lparr>raised = Some (BaseException ''SystemExit'' ''1''), dist_var = PNone\<rparr>
              (Inl (Exception ''DistutilsError'' '''')))
           ''setup.py'' []
     = (Inl (BaseException ''SystemExit'' ''1''), [])"
  by (simp add: execute_def script_world_def replace.simps)

section \<open>Failures of load\<close>

text \<open>
  C2, as amended. An exception raised by the fallback \<^verbatim>\<open>run_setup\<close> leaves \<^verbatim>\<open>load\<close> as it
  is. It is not the only way for \<^verbatim>\<open>load\<close> to raise: an exception that leaves the safe
  extraction leaves \<^verbatim>\<open>load\<close> too, and when the safe extraction succeeds or the fallback
  returns, \<^verbatim>\<open>load\<close> raises exactly what the assembly of the root from the distribution
  object raises, and returns what it returns.
\<close>

theorem load_raises:
  "(fst (execute w path lg) = Inr None \<and> run_setup w path = Inl e \<longrightarrow>
      fst (load w path lg) = Inl e) \<and>
   (fst (execute w path lg) = Inl e \<longrightarrow> fst (load w path lg) = Inl e) \<and>
   (fst (execute w path lg) = Inr (Some info) \<longrightarrow>
      fst (load w path lg) = load_info w path info) \<and>
   (fst (execute w path lg) = Inr None \<and> run_setup w path = Inr info \<longrightarrow>
      fst (load w path lg) = load_info w path info)"
  by (simp add: load_after_execute)

theorem load_raises_witness:
  "fst (load (script_world ''print(1)'' \<lparr>raised = None, dist_var = PNone\<rparr>
               (Inl (Exception ''DistutilsSetupError'' ''invalid command'')))
          ''setup.py'' [])
     = Inl (Exception ''DistutilsSetupError'' ''invalid command'')"
proof -
  have ex: "fst (execute (script_world ''print(1)'' \<lparr>raised = None, dist_var = PNone\<rparr>
               (Inl (Exception ''DistutilsSetupError'' ''invalid command'')))
          ''setup.py'' []) = Inr None"
    by (simp add: execute_def script_world_def replace.simps)
  have fb: "run_setup (script_world ''print(1)'' \<lparr>raised = None, dist_var = PNone\<rparr>
               (Inl (Exception ''DistutilsSetupError'' ''invalid command''))) ''setup.py''
     = Inl (Exception ''DistutilsSetupError'' ''invalid command'')"
    by (simp add: script_world_def)
  from load_raises [of "script_world ''print(1)'' \<lparr>raised = None, dist_var = PNone\<rparr>
               (Inl (Exception ''DistutilsSetupError'' ''invalid command''))" "''setup.py''" "[]"
       "Exception ''DistutilsSetupError'' ''invalid command''"] ex fb
  show ?thesis by blast
qed

text \<open>
  The fallback is not the only source of an exception: here the safe extraction succeeds,
  \<^verbatim>\<open>run_setup\<close> is never called, and \<^verbatim>\<open>load\<close> raises \<^verbatim>\<open>AttributeError\<close> because \<^verbatim>\<open>_get\<close> calls
  \<^verbatim>\<open>strip\<close> on the list given as \<^verbatim>\<open>license\<close>.
\<close>

theorem load_AttributeError_counterexample:
  "fst (execute (script_world ''setup(name=NAME, license=[LICENSE])''
                   \<lparr>raised = None,
                    dist_var = PDict [(''name'', PStr ''demo''), (''license'', PList [PStr ''MIT''])]\<rparr>
                   (Inl (Exception ''DistutilsError'' '''')))
          ''setup.py'' [])
     = Inr (Some (kwargs_distribution
                    (PDict [(''name'', PStr ''demo''), (''license'', PList [PStr ''MIT''])]))) \<and>
   fst (load (script_world ''setup(name=NAME, license=[LICENSE])''
                \<lparr>raised = None,
                 dist_var = PDict [(''name'', PStr ''demo''), (''license'', PList [PStr ''MIT''])]\<rparr>
                (Inl (Exception ''DistutilsError'' '''')))
          ''setup.py'' [])
     = Inl (AttributeError (PList [PStr ''MIT'']) ''strip'')"
proof -
  have ex: "fst (execute (script_world ''setup(name=NAME, license=[LICENSE])''
                   \<lparr>raised = None,
                    dist_var = PDict [(''name'', PStr ''demo''), (''license'', PList [PStr ''MIT''])]\<rparr>
                   (Inl (Exception ''DistutilsError'' '''')))
          ''setup.py'' [])
     = Inr (Some (kwargs_distribution
                    (PDict [(''name'', PStr ''demo''), (''license'', PList [PStr ''MIT''])])))"
    by (simp add: execute_def captured_def script_world_def replace.simps)
  have "load_info (script_world ''setup(name=NAME, license=[LICENSE])''
                \<lparr>raised = None,
                 dist_var = PDict [(''name'', PStr ''demo''), (''license'', PList [PStr ''MIT''])]\<rparr>
                (Inl (Exception ''DistutilsError'' ''''))) ''setup.py''
          (kwargs_distribution
             (PDict [(''name'', PStr ''demo''), (''license'', PList [PStr ''MIT''])]))
     = Inl (AttributeError (PList [PStr ''MIT'']) ''strip'')"
    by (simp add: load_info_def new_root_def get_def getattr_def kwargs_distribution_def
        strip_def isspace_def Let_def)
  with ex show ?thesis by (simp add: load_after_execute)
qed


section \<open>The requirement entries of the emitter\<close>

lemma values_under_Nil: "values_under [] env = []"
  by (simp add: values_under_def)

lemma values_under_dd_append:
  "values_under (dd_append ex k v) env = values_under ex env @ (if k = env then [v] else [])"
  by (induction ex k v rule: dd_append.induct) (auto simp: values_under_def)

lemma keys_dd_append: "fst ` set (dd_append ex k v) = insert k (fst ` set ex)"
  by (induction ex k v rule: dd_append.induct) auto

lemma distinct_dd_append:
  "distinct (map fst ex) \<Longrightarrow> distinct (map fst (dd_append ex k v))"
proof (induction ex k v rule: dd_append.induct)
  case (1 k v)
  then show ?case by simp
next
  case (2 k' vs rest k v)
  then show ?case
    using keys_dd_append [of rest k v] by (auto simp: image_iff)
qed

lemma values_under_add_envs:
  "values_under (add_envs ex es f) env =
     values_under ex env @ map (\<lambda>e. f) (filter (\<lambda>e. e = env) es)"
  by (induction ex es f rule: add_envs.induct) (auto simp: values_under_dd_append)

lemma keys_add_envs: "fst ` set (add_envs ex es f) = fst ` set ex \<union> set es"
  by (induction ex es f rule: add_envs.induct) (auto simp: keys_dd_append)

lemma distinct_add_envs:
  "distinct (map fst ex) \<Longrightarrow> distinct (map fst (add_envs ex es f))"
  by (induction ex es f rule: add_envs.induct) (auto simp: distinct_dd_append)

lemma values_under_collect_extras:
  "values_under (collect_extras reqs ex) env = values_under ex env @ renderings_under env reqs"
  by (induction reqs ex rule: collect_extras.induct)
     (auto simp: values_under_add_envs renderings_under_def)

lemma keys_collect_extras:
  "fst ` set (collect_extras reqs ex) = fst ` set ex \<union> (\<Union>req\<in>set reqs. set (main_envs req))"
  by (induction reqs ex rule: collect_extras.induct) (auto simp: keys_add_envs)

lemma distinct_collect_extras:
  "distinct (map fst ex) \<Longrightarrow> distinct (map fst (collect_extras reqs ex))"
  by (induction reqs ex rule: collect_extras.induct) (auto simp: distinct_add_envs)

lemma collect_extras_empty_iff:
  "collect_extras reqs [] = [] \<longleftrightarrow> (\<forall>req\<in>set reqs. main_envs req = [])"
proof -
  have "collect_extras reqs [] = [] \<longleftrightarrow> fst ` set (collect_extras reqs []) = {}"
    by simp
  also have "\<dots> \<longleftrightarrow> (\<forall>req\<in>set reqs. main_envs req = [])"
    unfolding keys_collect_extras by auto
  finally show ?thesis .
qed

lemma renderings_under_member:
  "req \<in> set reqs \<Longrightarrow> env \<in> set (main_envs req) \<Longrightarrow>
     format_req req \<in> set (renderings_under env reqs)"
  by (auto simp: renderings_under_def)

text \<open>
  C6. \<^verbatim>\<open>dumps\<close> appends \<^verbatim>\<open>install_requires\<close> with the renderings, in input order, of
  exactly the requirements whose \<^verbatim>\<open>main_envs\<close> is empty. The dictionary of extras has one
  key for every environment name of a requirement, and under a name the renderings of
  the requirements that have the name, one per requirement and in input order;
  \<^verbatim>\<open>extras_require\<close> is appended if and only if some requirement has a named environment.
  Every requirement of the input goes to exactly one of the two keys.
\<close>

theorem dumps_requirements_split:
  "dumps_requirements reqs content =
     content @
     [(''install_requires'',
       PList (map (\<lambda>req. PStr (format_req req)) (filter (\<lambda>req. main_envs req = []) reqs)))] @
     (if \<exists>req\<in>set reqs. main_envs req \<noteq> []
      then [(''extras_require'',
             PDict (map (\<lambda>(k, vs). (k, PList (map PStr vs))) (collect_extras reqs [])))]
      else []) \<and>
   distinct (map fst (collect_extras reqs [])) \<and>
   fst ` set (collect_extras reqs []) = (\<Union>req\<in>set reqs. set (main_envs req)) \<and>
   (\<forall>env. values_under (collect_extras reqs []) env = renderings_under env reqs) \<and>
   (\<forall>req\<in>set reqs.
      (req \<in> set (filter (\<lambda>req. main_envs req = []) reqs)) \<noteq>
      (\<exists>env\<in>set (main_envs req).
         format_req req \<in> set (values_under (collect_extras reqs []) env)))"
proof (intro conjI)
  show "dumps_requirements reqs content =
     content @
     [(''install_requires'',
       PList (map (\<lambda>req. PStr (format_req req)) (filter (\<lambda>req. main_envs req = []) reqs)))] @
     (if \<exists>req\<in>set reqs. main_envs req \<noteq> []
      then [(''extras_require'',
             PDict (map (\<lambda>(k, vs). (k, PList (map PStr vs))) (collect_extras reqs [])))]
      else [])"
    using collect_extras_empty_iff [of reqs]
    by (auto simp: dumps_requirements_def Let_def comp_def)
next
  show "distinct (map fst (collect_extras reqs []))"
    by (rule distinct_collect_extras) simp
next
  show "fst ` set (collect_extras reqs []) = (\<Union>req\<in>set reqs. set (main_envs req))"
    by (simp add: keys_collect_extras)
next
  show "\<forall>env. values_under (collect_extras reqs []) env = renderings_under env reqs"
    by (simp add: values_under_collect_extras values_under_Nil)
next
  show "\<forall>req\<in>set reqs.
      (req \<in> set (filter (\<lambda>req. main_envs req = []) reqs)) \<noteq>
      (\<exists>env\<in>set (main_envs req).
         format_req req \<in> set (values_under (collect_extras reqs []) env))"
  proof
    fix req assume r: "req \<in> set reqs"
    show "(req \<in> set (filter (\<lambda>req. main_envs req = []) reqs)) \<noteq>
      (\<exists>env\<in>set (main_envs req).
         format_req req \<in> set (values_under (collect_extras reqs []) env))"
    proof (cases "main_envs req = []")
      case True
      with r show ?thesis by simp
    next
      case False
      then obtain env where "env \<in> set (main_envs req)" by (cases "main_envs req") auto
      with r False show ?thesis
        using renderings_under_member [of req reqs env]
        by (auto simp: values_under_collect_extras values_under_Nil)
    qed
  qed
qed


theorem dumps_requirements_split_witness:
  "dumps_requirements
     [\<lparr>req_name = ''flask'', req_extras = [], req_version = ''>=1.0'', req_markers = None,
       main_envs = []\<rparr>,
      \<lparr>req_name = ''pytest'', req_extras = [], req_version = '''', req_markers = None,
       main_envs = [''tests'']\<rparr>,
      \<lparr>req_name = ''sphinx'', req_extras = [], req_version = '''', req_markers = None,
       main_envs = [''docs'', ''tests'']\<rparr>]
     [(''name'', PStr ''demo'')]
   = [(''name'', PStr ''demo''),
      (''install_requires'', PList [PStr ''flask>=1.0'']),
      (''extras_require'',
       PDict [(''tests'', PList [PStr ''pytest'', PStr ''sphinx'']),
              (''docs'', PList [PStr ''sphinx''])])]"
  using dumps_requirements_split
     [of "[\<lparr>req_name = ''flask'', req_extras = [], req_version = ''>=1.0'', req_markers = None,
       main_envs = []\<rparr>,
      \<lparr>req_name = ''pytest'', req_extras = [], req_version = '''', req_markers = None,
       main_envs = [''tests'']\<rparr>,
      \<lparr>req_name = ''sphinx'', req_extras = [], req_version = '''', req_markers = None,
       main_envs = [''docs'', ''tests'']\<rparr>]" "[(''name'', PStr ''demo'')]"]
  by (simp add: format_req_def Let_def)


section \<open>The installer driver\<close>





end
